theory Spec2Isabelle
  imports Complex_Main
begin

section \<open>Data model\<close>

text \<open>
  The tables of the attendance backend, as the models and the controllers use them.
  A row is a record; a table is the list of its rows in insertion order. Identifiers
  are the auto-incremented primary keys. A nullable column is an \<open>option\<close>.
  Dates are the strings the handlers receive and the DATEONLY columns return
  (\<open>YYYY-MM-DD\<close>); time stamps are natural numbers.
\<close>

record user =
  u_id :: nat
  u_role :: string
  u_batchId :: "nat option"
  u_divisionId :: "nat option"

record batch =
  b_id :: nat
  b_name :: string
  b_year :: nat
  b_isActive :: bool

record division =
  d_id :: nat
  d_name :: string
  d_isActive :: bool

record sessionType =
  st_id :: nat
  st_name :: string

record session =
  s_id :: nat
  s_date :: string
  s_startTime :: string
  s_endTime :: string
  s_sessionTypeId :: nat
  s_batchId :: nat
  s_divisionId :: nat
  s_status :: string

record attendance =
  a_id :: nat
  a_sessionId :: nat
  a_userId :: nat
  a_status :: string
  a_notes :: "string option"
  a_verifiedBy :: "nat option"
  a_verifiedAt :: "nat option"

record db =
  users :: "user list"
  batches :: "batch list"
  divisions :: "division list"
  sessionTypes :: "sessionType list"
  sessions :: "session list"
  attendances :: "attendance list"

section \<open>Responses and errors\<close>

text \<open>
  A handler ends in one of three ways: \<open>res.status(c).json({success: true, ...})\<close>,
  \<open>res.status(c).json({success: false, message})\<close>, or \<open>next(error)\<close> from its
  \<open>catch\<close> block, which hands the exception to the central error handler (the
  internal error of the specification). Messages that interpolate an identifier are
  written without it.
\<close>

datatype js_error =
  ReferenceError string | TypeError string | ValidationError string
  | ForeignKeyConstraintError string

datatype 'a response = Success nat 'a | Failure nat string | NextError js_error

fun is_error :: "'a response \<Rightarrow> bool" where
  "is_error (Success c x) = False"
| "is_error (Failure c m) = True"
| "is_error (NextError e) = True"

subsection \<open>Module scope\<close>

text \<open>
  Each controller is a module of its own, and an identifier is bound in it only when the
  module imports it. Evaluating an unbound identifier throws a \<open>ReferenceError\<close>,
  inside the handler's \<open>try\<close>. The import lists are the first lines of each
  controller; the batch, session and attendance controllers follow one another in the
  source file \<open>batch.controller.js\<close>, each with its own.
\<close>

definition batch_controller_scope :: "string list" where
  "batch_controller_scope = [''Batch'', ''User'']"

definition division_controller_scope :: "string list" where
  "division_controller_scope = [''Division'', ''User'', ''Op'']"

definition session_controller_scope :: "string list" where
  "session_controller_scope =
     [''Session'', ''SessionType'', ''Attendance'', ''User'', ''Batch'', ''Op'']"

definition attendance_controller_scope :: "string list" where
  "attendance_controller_scope =
     [''Attendance'', ''Session'', ''User'', ''SessionType'', ''Batch'', ''Op'']"

definition bound :: "string list \<Rightarrow> string \<Rightarrow> bool" where
  "bound scope x = (x \<in> set scope)"

subsection \<open>JavaScript truthiness\<close>

text \<open>
  A request field that is absent is \<open>undefined\<close>; \<open>undefined\<close>, the empty string and
  the number 0 are falsy. \<open>a || b\<close> is \<open>a\<close> when \<open>a\<close> is truthy and \<open>b\<close> otherwise.
\<close>

fun truthy_str :: "string option \<Rightarrow> bool" where
  "truthy_str None = False"
| "truthy_str (Some s) = (s \<noteq> [])"

fun truthy_num :: "nat option \<Rightarrow> bool" where
  "truthy_num None = False"
| "truthy_num (Some n) = (n \<noteq> 0)"

fun or_str :: "string option \<Rightarrow> string \<Rightarrow> string" where
  "or_str None d = d"
| "or_str (Some s) d = (if s \<noteq> [] then s else d)"

fun or_num :: "nat option \<Rightarrow> nat \<Rightarrow> nat" where
  "or_num None d = d"
| "or_num (Some n) d = (if n \<noteq> 0 then n else d)"

section \<open>Batch controller\<close>

definition Batch_findByPk :: "db \<Rightarrow> nat \<Rightarrow> batch option" where
  "Batch_findByPk dbs i = find (\<lambda>b. b_id b = i) (batches dbs)"

definition Batch_findOne :: "db \<Rightarrow> (batch \<Rightarrow> bool) \<Rightarrow> batch option" where
  "Batch_findOne dbs p = find p (batches dbs)"


text \<open>
  The Batch model validates \<open>name\<close> (\<open>notEmpty\<close>) and \<open>year\<close> (2000 to 2100) when an
  instance is saved; a value that fails rejects the save.
\<close>

definition Batch_valid :: "string \<Rightarrow> nat \<Rightarrow> bool" where
  "Batch_valid name year = (name \<noteq> [] \<and> 2000 \<le> year \<and> year \<le> 2100)"

definition Batch_save :: "db \<Rightarrow> batch \<Rightarrow> db" where
  "Batch_save dbs b =
     dbs\<lparr>batches := map (\<lambda>x. if b_id x = b_id b then b else x) (batches dbs)\<rparr>"




text \<open>
  \<open>updateBatch\<close>: the duplicate check runs when both \<open>name\<close> and \<open>year\<close> are truthy, and
  builds its query with \<open>Op.ne\<close>. The handler is given the scope of its module, so the
  lookup of \<open>Op\<close> is a step of its own.
\<close>

definition updateBatch_in ::
  "string list \<Rightarrow> db \<Rightarrow> nat \<Rightarrow> string option \<Rightarrow> nat option \<Rightarrow> bool option
     \<Rightarrow> db \<times> batch response" where
  "updateBatch_in scope dbs i name year isActive =
     (case Batch_findByPk dbs i of
        None \<Rightarrow> (dbs, Failure 404 ''Batch not found'')
      | Some b \<Rightarrow>
          if truthy_str name \<and> truthy_num year \<and> \<not> bound scope ''Op''
          then (dbs, NextError (ReferenceError ''Op''))
          else if truthy_str name \<and> truthy_num year \<and>
                  Batch_findOne dbs
                    (\<lambda>x. b_id x \<noteq> i \<and> Some (b_name x) = name \<and> Some (b_year x) = year) \<noteq> None
          then (dbs, Failure 400 ''Batch with this name and year already exists'')
          else
            let b' = b\<lparr>b_name := or_str name (b_name b),
                       b_year := or_num year (b_year b),
                       b_isActive := (case isActive of None \<Rightarrow> b_isActive b | Some v \<Rightarrow> v)\<rparr>
            in if Batch_valid (b_name b') (b_year b')
               then (Batch_save dbs b', Success 200 b')
               else (dbs, NextError (ValidationError ''Batch'')))"

definition updateBatch ::
  "db \<Rightarrow> nat \<Rightarrow> string option \<Rightarrow> nat option \<Rightarrow> bool option \<Rightarrow> db \<times> batch response" where
  "updateBatch = updateBatch_in batch_controller_scope"


section \<open>Division controller\<close>




section \<open>Session controller\<close>

definition validSessionStatuses :: "string list" where
  "validSessionStatuses = [''scheduled'', ''in-progress'', ''completed'', ''cancelled'']"

text \<open>The test \<open>/^\d{4}-\d{2}-\d{2}$/\<close>: four digits, a dash, two digits, a dash, two digits.\<close>

definition is_digit :: "char \<Rightarrow> bool" where
  "is_digit c = (c \<in> set ''0123456789'')"

definition dateRegex_test :: "string \<Rightarrow> bool" where
  "dateRegex_test s =
     (length s = 10 \<and> list_all is_digit (take 4 s) \<and> s ! 4 = CHR ''-'' \<and>
      list_all is_digit (take 2 (drop 5 s)) \<and> s ! 7 = CHR ''-'' \<and>
      list_all is_digit (drop 8 s))"

definition SessionType_findByPk :: "db \<Rightarrow> nat \<Rightarrow> sessionType option" where
  "SessionType_findByPk dbs i = find (\<lambda>t. st_id t = i) (sessionTypes dbs)"

definition Session_findByPk :: "db \<Rightarrow> nat \<Rightarrow> session option" where
  "Session_findByPk dbs i = find (\<lambda>s. s_id s = i) (sessions dbs)"

definition Session_findOne :: "db \<Rightarrow> (session \<Rightarrow> bool) \<Rightarrow> session option" where
  "Session_findOne dbs p = find p (sessions dbs)"

definition User_findAll :: "db \<Rightarrow> (user \<Rightarrow> bool) \<Rightarrow> user list" where
  "User_findAll dbs p = filter p (users dbs)"

text \<open>A new row takes the next value of its table's auto-increment key.\<close>

definition next_id :: "nat list \<Rightarrow> nat" where
  "next_id ids = Suc (foldr max ids 0)"

text \<open>
  \<open>Session.create\<close> builds an instance from the given values and validates it against
  the model before the insert. The Session model (and the migration that creates the
  table) declares \<open>startTime\<close>, \<open>endTime\<close> and \<open>divisionId\<close> with \<open>allowNull: false\<close> and
  no default, so an instance without one of them is rejected with a validation error;
  \<open>date\<close> carries the validator \<open>isDate\<close>, whose verdict on a string is the parameter
  \<open>isDate\<close>. The model has no \<open>notes\<close> attribute: the value a handler passes is dropped.
\<close>

definition Session_create ::
  "(string \<Rightarrow> bool) \<Rightarrow> db \<Rightarrow> string \<Rightarrow> string option \<Rightarrow> string option \<Rightarrow> nat \<Rightarrow> nat
     \<Rightarrow> nat option \<Rightarrow> string \<Rightarrow> js_error + (db \<times> session)" where
  "Session_create isDate dbs date startTime endTime sessionTypeId batchId divisionId status =
     (case startTime of
        None \<Rightarrow> Inl (ValidationError ''notNull Violation: Session.startTime cannot be null'')
      | Some st \<Rightarrow>
     (case endTime of
        None \<Rightarrow> Inl (ValidationError ''notNull Violation: Session.endTime cannot be null'')
      | Some et \<Rightarrow>
     (case divisionId of
        None \<Rightarrow> Inl (ValidationError ''notNull Violation: Session.divisionId cannot be null'')
      | Some dv \<Rightarrow>
          if isDate date
          then let s = \<lparr>s_id = next_id (map s_id (sessions dbs)), s_date = date,
                        s_startTime = st, s_endTime = et, s_sessionTypeId = sessionTypeId,
                        s_batchId = batchId, s_divisionId = dv, s_status = status\<rparr>
               in Inr (dbs\<lparr>sessions := sessions dbs @ [s]\<rparr>, s)
          else Inl (ValidationError ''Validation isDate on date failed''))))"

text \<open>\<open>instance.update\<close> writes the given columns of the row with the instance's key.\<close>

definition Session_save :: "db \<Rightarrow> session \<Rightarrow> db" where
  "Session_save dbs s =
     dbs\<lparr>sessions := map (\<lambda>x. if s_id x = s_id s then s else x) (sessions dbs)\<rparr>"

subsection \<open>Attendance rows\<close>

text \<open>The values of a row to insert: the row without its key.\<close>

record new_attendance =
  n_sessionId :: nat
  n_userId :: nat
  n_status :: string
  n_notes :: "string option"
  n_verifiedBy :: "nat option"
  n_verifiedAt :: "nat option"

fun assign_ids :: "nat \<Rightarrow> new_attendance list \<Rightarrow> attendance list" where
  "assign_ids k [] = []"
| "assign_ids k (v # vs) =
     \<lparr>a_id = k, a_sessionId = n_sessionId v, a_userId = n_userId v, a_status = n_status v,
      a_notes = n_notes v, a_verifiedBy = n_verifiedBy v, a_verifiedAt = n_verifiedAt v\<rparr>
     # assign_ids (Suc k) vs"

definition Attendance_bulkCreate :: "db \<Rightarrow> new_attendance list \<Rightarrow> db \<times> attendance list" where
  "Attendance_bulkCreate dbs vs =
     (let created = assign_ids (next_id (map a_id (attendances dbs))) vs
      in (dbs\<lparr>attendances := attendances dbs @ created\<rparr>, created))"

definition Attendance_findAll :: "db \<Rightarrow> (attendance \<Rightarrow> bool) \<Rightarrow> attendance list" where
  "Attendance_findAll dbs p = filter p (attendances dbs)"

definition Attendance_findOne :: "db \<Rightarrow> (attendance \<Rightarrow> bool) \<Rightarrow> attendance option" where
  "Attendance_findOne dbs p = find p (attendances dbs)"

definition Attendance_count :: "db \<Rightarrow> (attendance \<Rightarrow> bool) \<Rightarrow> nat" where
  "Attendance_count dbs p = length (filter p (attendances dbs))"

definition Attendance_destroy :: "db \<Rightarrow> (attendance \<Rightarrow> bool) \<Rightarrow> db" where
  "Attendance_destroy dbs p = dbs\<lparr>attendances := filter (\<lambda>a. \<not> p a) (attendances dbs)\<rparr>"

text \<open>
  The rows both session handlers build for the santri users of a batch:
  status \<open>absent\<close>, no verifier.
\<close>

definition absentRecord :: "nat \<Rightarrow> user \<Rightarrow> new_attendance" where
  "absentRecord sid u =
     \<lparr>n_sessionId = sid, n_userId = u_id u, n_status = ''absent'', n_notes = None,
      n_verifiedBy = None, n_verifiedAt = None\<rparr>"

definition santriOfBatch :: "db \<Rightarrow> nat \<Rightarrow> user list" where
  "santriOfBatch dbs batchId =
     User_findAll dbs (\<lambda>u. u_batchId u = Some batchId \<and> u_role u = ''santri'')"

definition insertAbsent :: "db \<Rightarrow> nat \<Rightarrow> user list \<Rightarrow> db" where
  "insertAbsent dbs sid us =
     (if length us > 0 then fst (Attendance_bulkCreate dbs (map (absentRecord sid) us)) else dbs)"

subsection \<open>createSession\<close>

text \<open>
  The body's \<open>date\<close> may be absent; the regular expression then tests the string
  \<open>undefined\<close>. The handler passes \<open>date\<close>, \<open>sessionTypeId\<close>, \<open>batchId\<close>, \<open>notes\<close> and the
  status \<open>scheduled\<close> to \<open>Session.create\<close>, and nothing else. The handler is written
  over that call: \<open>create\<close> stands for \<open>Session.create\<close> applied to the date, the session
  type, the batch and the status, and \<open>createSession\<close> is the handler over the
  \<open>Session.create\<close> of the model.
\<close>

definition createSession_with ::
  "(db \<Rightarrow> string \<Rightarrow> nat \<Rightarrow> nat \<Rightarrow> string \<Rightarrow> js_error + (db \<times> session))
     \<Rightarrow> db \<Rightarrow> string option \<Rightarrow> nat \<Rightarrow> nat \<Rightarrow> db \<times> session response" where
  "createSession_with create dbs date sessionTypeId batchId =
     (let d = (case date of None \<Rightarrow> ''undefined'' | Some x \<Rightarrow> x)
      in if \<not> dateRegex_test d
         then (dbs, Failure 400 ''Date must be in YYYY-MM-DD format'')
         else
     (case SessionType_findByPk dbs sessionTypeId of
        None \<Rightarrow> (dbs, Failure 404 ''Session type not found'')
      | Some sessionType \<Rightarrow>
     (case Batch_findByPk dbs batchId of
        None \<Rightarrow> (dbs, Failure 404 ''Batch not found'')
      | Some b \<Rightarrow>
     (case Session_findOne dbs
             (\<lambda>s. s_date s = d \<and> s_sessionTypeId s = sessionTypeId \<and> s_batchId s = batchId) of
        Some existingSession \<Rightarrow>
          (dbs, Failure 400 ''A session already exists for this date, session type, and batch'')
      | None \<Rightarrow>
     (case create dbs d sessionTypeId batchId ''scheduled'' of
        Inl e \<Rightarrow> (dbs, NextError e)
      | Inr (dbs1, s) \<Rightarrow>
          (insertAbsent dbs1 (s_id s) (santriOfBatch dbs1 batchId), Success 201 s))))))"

definition createSession ::
  "(string \<Rightarrow> bool) \<Rightarrow> db \<Rightarrow> string option \<Rightarrow> nat \<Rightarrow> nat \<Rightarrow> db \<times> session response" where
  "createSession isDate =
     createSession_with
       (\<lambda>dbs date sessionTypeId batchId status.
          Session_create isDate dbs date None None sessionTypeId batchId None status)"

subsection \<open>updateSession\<close>

text \<open>
  Each field of the body is optional (\<open>notes\<close>, which the model does not have, is left
  out). After the checks the handler runs
  \<open>session = await session.update({...})\<close>, which validates a changed \<open>date\<close>, writes
  the row and leaves the new values in \<open>session\<close>; the test for a changed batch,
  \<open>batchId && batchId !== session.batchId\<close>, comes after it and reads that \<open>session\<close>.
\<close>

definition updateSession ::
  "(string \<Rightarrow> bool) \<Rightarrow> db \<Rightarrow> nat \<Rightarrow> string option \<Rightarrow> nat option \<Rightarrow> nat option
     \<Rightarrow> string option \<Rightarrow> db \<times> session response" where
  "updateSession isDate dbs i date sessionTypeId batchId status =
     (case Session_findByPk dbs i of
        None \<Rightarrow> (dbs, Failure 404 ''Session not found'')
      | Some session0 \<Rightarrow>
          if truthy_str date \<and> \<not> dateRegex_test (or_str date [])
          then (dbs, Failure 400 ''Date must be in YYYY-MM-DD format'')
          else if truthy_num sessionTypeId \<and>
                  SessionType_findByPk dbs (or_num sessionTypeId 0) = None
          then (dbs, Failure 404 ''Session type not found'')
          else if truthy_num batchId \<and> Batch_findByPk dbs (or_num batchId 0) = None
          then (dbs, Failure 404 ''Batch not found'')
          else if (truthy_str date \<or> truthy_num sessionTypeId \<or> truthy_num batchId) \<and>
                  Session_findOne dbs
                    (\<lambda>s. s_id s \<noteq> i \<and> s_date s = or_str date (s_date session0) \<and>
                         s_sessionTypeId s = or_num sessionTypeId (s_sessionTypeId session0) \<and>
                         s_batchId s = or_num batchId (s_batchId session0)) \<noteq> None
          then (dbs, Failure 400 ''A session already exists for this date, session type, and batch'')
          else if truthy_str status \<and> or_str status [] \<notin> set validSessionStatuses
          then (dbs, Failure 400 ''Status must be one of: scheduled, in-progress, completed, cancelled'')
          else
            let session = session0\<lparr>s_date := or_str date (s_date session0),
                                   s_sessionTypeId := or_num sessionTypeId (s_sessionTypeId session0),
                                   s_batchId := or_num batchId (s_batchId session0),
                                   s_status := or_str status (s_status session0)\<rparr>
            in if s_date session = s_date session0 \<or> isDate (s_date session)
               then
                 let dbs1 = Session_save dbs session;
                     dbs2 = (if truthy_num batchId \<and> or_num batchId 0 \<noteq> s_batchId session
                             then let dbs' = Attendance_destroy dbs1 (\<lambda>a. a_sessionId a = s_id session)
                                  in insertAbsent dbs' (s_id session)
                                       (santriOfBatch dbs' (or_num batchId 0))
                             else dbs1)
                 in (dbs2, Success 200 session)
               else (dbs, NextError (ValidationError ''Validation isDate on date failed'')))"

section \<open>Attendance controller\<close>

text \<open>
  The handlers of this module take the acting user (\<open>req.user.id\<close>, set by the
  authentication middleware) and the current time (\<open>new Date()\<close>) as arguments.
  A list of user ids in a request body is a list; a body without it takes the branch
  of the empty list.
\<close>

definition validStatuses :: "string list" where
  "validStatuses = [''present'', ''absent'', ''late'', ''excused'']"

definition stampedRecord ::
  "nat \<Rightarrow> string \<Rightarrow> string option \<Rightarrow> nat \<Rightarrow> nat \<Rightarrow> nat \<Rightarrow> new_attendance" where
  "stampedRecord sid status notes actor now uid =
     \<lparr>n_sessionId = sid, n_userId = uid, n_status = status, n_notes = notes,
      n_verifiedBy = Some actor, n_verifiedAt = Some now\<rparr>"

subsection \<open>createAttendanceRecords\<close>

definition createAttendanceRecords ::
  "nat \<Rightarrow> nat \<Rightarrow> db \<Rightarrow> nat \<Rightarrow> nat list \<Rightarrow> string option \<Rightarrow> db \<times> attendance list response" where
  "createAttendanceRecords actor now dbs sessionId userIds defaultStatus =
     (if userIds = []
      then (dbs, Failure 400 ''userIds must be a non-empty array'')
      else
     (case Session_findByPk dbs sessionId of
        None \<Rightarrow> (dbs, Failure 404 ''Session not found'')
      | Some session \<Rightarrow>
          let status = or_str defaultStatus ''absent''
          in if status \<notin> set validStatuses
             then (dbs, Failure 400 ''Status must be one of: present, absent, late, excused'')
             else
               let existingRecords =
                     Attendance_findAll dbs
                       (\<lambda>a. a_sessionId a = sessionId \<and> a_userId a \<in> set userIds);
                   existingUserIds = map a_userId existingRecords;
                   newUserIds = filter (\<lambda>uid. uid \<notin> set existingUserIds) userIds
               in if newUserIds = []
                  then (dbs, Failure 400
                          ''All specified users already have attendance records for this session'')
                  else
                    (case Attendance_bulkCreate dbs
                            (map (stampedRecord sessionId status None actor now) newUserIds) of
                       (dbs', createdRecords) \<Rightarrow>
                         (dbs', Success 201
                            (Attendance_findAll dbs'
                               (\<lambda>a. a_id a \<in> set (map a_id createdRecords)))))))"

subsection \<open>generateAttendanceForBatch\<close>

text \<open>
  The session is loaded with \<open>include: [{ model: Batch }]\<close>, and the handler reads the
  batch's name from the property \<open>session.batch\<close> when it builds two of its messages.
  Under which property the object-relational layer attaches the included row is its
  business, so what \<open>session.batch\<close> holds is the parameter \<open>session_batch\<close>: \<open>None\<close>
  when the property is undefined, and then reading its \<open>name\<close> throws a
  \<open>TypeError\<close>. A session row cannot have a null \<open>batchId\<close>; \<open>!session.batchId\<close> holds
  of the number 0.
\<close>

definition generateAttendanceForBatch ::
  "(db \<Rightarrow> session \<Rightarrow> batch option) \<Rightarrow> nat \<Rightarrow> nat \<Rightarrow> db \<Rightarrow> nat \<Rightarrow> string option
     \<Rightarrow> db \<times> nat response" where
  "generateAttendanceForBatch session_batch actor now dbs sessionId defaultStatus =
     (case Session_findByPk dbs sessionId of
        None \<Rightarrow> (dbs, Failure 404 ''Session not found'')
      | Some session \<Rightarrow>
          if s_batchId session = 0
          then (dbs, Failure 400 ''Session is not associated with any batch'')
          else
            let status = or_str defaultStatus ''absent''
            in if status \<notin> set validStatuses
               then (dbs, Failure 400 ''Status must be one of: present, absent, late, excused'')
               else
                 let us = User_findAll dbs
                            (\<lambda>u. u_batchId u = Some (s_batchId session) \<and> u_role u = ''santri'')
                 in if us = []
                    then (case session_batch dbs session of
                            None \<Rightarrow> (dbs, NextError (TypeError ''session.batch is undefined''))
                          | Some b \<Rightarrow> (dbs, Failure 404 ''No users found in batch''))
                    else
                      let existingRecords =
                            Attendance_findAll dbs
                              (\<lambda>a. a_sessionId a = sessionId \<and> a_userId a \<in> set (map u_id us));
                          existingUserIds = map a_userId existingRecords;
                          newUsers = filter (\<lambda>u. u_id u \<notin> set existingUserIds) us
                      in if newUsers = []
                         then (dbs, Failure 400
                                 ''All users in this batch already have attendance records for this session'')
                         else
                           (case Attendance_bulkCreate dbs
                                   (map (\<lambda>u. stampedRecord sessionId status None actor now (u_id u))
                                      newUsers) of
                              (dbs', createdRecords) \<Rightarrow>
                                (case session_batch dbs session of
                                   None \<Rightarrow> (dbs', NextError (TypeError ''session.batch is undefined''))
                                 | Some b \<Rightarrow> (dbs', Success 201 (length createdRecords)))))"

subsection \<open>bulkUpdateAttendance\<close>

record item =
  i_id :: "nat option"
  i_status :: "string option"
  i_notes :: "string option"

text \<open>The first loop: the first item that fails a test decides the answer.\<close>

fun validate_items :: "item list \<Rightarrow> string option" where
  "validate_items [] = None"
| "validate_items (it # its) =
     (if truthy_num (i_id it) \<and> truthy_str (i_status it)
      then if or_str (i_status it) [] \<in> set validStatuses
           then validate_items its
           else Some ''Status must be one of: present, absent, late, excused''
      else Some ''Each attendance item must have id and status'')"

text \<open>
  \<open>attendance.update\<close> writes the four columns of the row with the instance's key.
\<close>

definition Attendance_update ::
  "db \<Rightarrow> nat \<Rightarrow> string \<Rightarrow> string option \<Rightarrow> nat option \<Rightarrow> nat option \<Rightarrow> db" where
  "Attendance_update dbs k status notes verifiedBy verifiedAt =
     dbs\<lparr>attendances :=
            map (\<lambda>a. if a_id a = k
                     then a\<lparr>a_status := status, a_notes := notes,
                            a_verifiedBy := verifiedBy, a_verifiedAt := verifiedAt\<rparr>
                     else a)
              (attendances dbs)\<rparr>"

text \<open>The second loop, with the list \<open>updates\<close> of the keys it has written.\<close>

fun update_items :: "nat \<Rightarrow> nat \<Rightarrow> nat \<Rightarrow> db \<Rightarrow> nat list \<Rightarrow> item list \<Rightarrow> db \<times> nat list" where
  "update_items actor now sessionId dbs updates [] = (dbs, updates)"
| "update_items actor now sessionId dbs updates (it # its) =
     (case Attendance_findOne dbs
             (\<lambda>a. Some (a_id a) = i_id it \<and> a_sessionId a = sessionId) of
        None \<Rightarrow> update_items actor now sessionId dbs updates its
      | Some a \<Rightarrow>
          update_items actor now sessionId
            (Attendance_update dbs (a_id a) (or_str (i_status it) [])
               (case i_notes it of None \<Rightarrow> a_notes a | Some n \<Rightarrow> Some n)
               (Some actor) (Some now))
            (updates @ [a_id a]) its)"

definition bulkUpdateAttendance ::
  "nat \<Rightarrow> nat \<Rightarrow> db \<Rightarrow> nat \<Rightarrow> item list \<Rightarrow> db \<times> attendance list response" where
  "bulkUpdateAttendance actor now dbs sessionId attendanceData =
     (if attendanceData = []
      then (dbs, Failure 400 ''attendanceData must be a non-empty array'')
      else
     (case Session_findByPk dbs sessionId of
        None \<Rightarrow> (dbs, Failure 404 ''Session not found'')
      | Some session \<Rightarrow>
     (case validate_items attendanceData of
        Some message \<Rightarrow> (dbs, Failure 400 message)
      | None \<Rightarrow>
     (case update_items actor now sessionId dbs [] attendanceData of
        (dbs', updates) \<Rightarrow>
          (dbs', Success 200 (Attendance_findAll dbs' (\<lambda>a. a_id a \<in> set updates)))))))"

subsection \<open>bulkCreateUpdateFilteredAttendance\<close>

text \<open>
  The handler changes the loaded instances in memory, collects the rows to create, and
  then calls \<open>sequelize.transaction\<close>: the identifier \<open>sequelize\<close> is looked up at that
  point, before any write. Inside the transaction each changed instance is saved and the
  new rows are inserted.
\<close>

fun save_all :: "db \<Rightarrow> attendance list \<Rightarrow> db" where
  "save_all dbs [] = dbs"
| "save_all dbs (r # rs) =
     save_all (Attendance_update dbs (a_id r) (a_status r) (a_notes r)
                 (a_verifiedBy r) (a_verifiedAt r)) rs"

record filtered_result =
  fr_updated :: nat
  fr_created :: nat
  fr_total :: nat

definition bulkCreateUpdateFilteredAttendance_in ::
  "string list \<Rightarrow> nat \<Rightarrow> nat \<Rightarrow> db \<Rightarrow> nat \<Rightarrow> nat list \<Rightarrow> string option \<Rightarrow> string option
     \<Rightarrow> db \<times> filtered_result response" where
  "bulkCreateUpdateFilteredAttendance_in scope actor now dbs sessionId userIds status notes =
     (if userIds = []
      then (dbs, Failure 400 ''userIds must be a non-empty array'')
      else
     (case Session_findByPk dbs sessionId of
        None \<Rightarrow> (dbs, Failure 404 ''Session not found'')
      | Some session \<Rightarrow>
     (case status of
        None \<Rightarrow> (dbs, Failure 400 ''Status must be one of: present, absent, late, excused'')
      | Some st \<Rightarrow>
          if st \<notin> set validStatuses
          then (dbs, Failure 400 ''Status must be one of: present, absent, late, excused'')
          else
            let existingRecords =
                  Attendance_findAll dbs
                    (\<lambda>a. a_sessionId a = sessionId \<and> a_userId a \<in> set userIds);
                existingUserIds = map a_userId existingRecords;
                recordsToUpdate =
                  map (\<lambda>r. r\<lparr>a_status := st,
                              a_notes := (case notes of None \<Rightarrow> a_notes r | Some n \<Rightarrow> Some n),
                              a_verifiedBy := Some actor, a_verifiedAt := Some now\<rparr>)
                    existingRecords;
                newUserIds = filter (\<lambda>uid. uid \<notin> set existingUserIds) userIds;
                recordsToCreate = map (stampedRecord sessionId st notes actor now) newUserIds
            in if \<not> bound scope ''sequelize''
               then (dbs, NextError (ReferenceError ''sequelize''))
               else
                 let dbs1 = save_all dbs recordsToUpdate;
                     dbs2 = (if length recordsToCreate > 0
                             then fst (Attendance_bulkCreate dbs1 recordsToCreate) else dbs1)
                 in (dbs2, Success 200
                       \<lparr>fr_updated = length recordsToUpdate, fr_created = length recordsToCreate,
                        fr_total = length recordsToUpdate + length recordsToCreate\<rparr>))))"

definition bulkCreateUpdateFilteredAttendance ::
  "nat \<Rightarrow> nat \<Rightarrow> db \<Rightarrow> nat \<Rightarrow> nat list \<Rightarrow> string option \<Rightarrow> string option
     \<Rightarrow> db \<times> filtered_result response" where
  "bulkCreateUpdateFilteredAttendance =
     bulkCreateUpdateFilteredAttendance_in attendance_controller_scope"

subsection \<open>Session filters\<close>

text \<open>
  The \<open>where\<close> object both reporting handlers build for \<open>Session.findAll\<close>: a lower and
  an upper bound on \<open>date\<close> (\<open>Op.gte\<close>, \<open>Op.lte\<close>) and equalities on \<open>batchId\<close> and
  \<open>sessionTypeId\<close>, each present only when the handler has set it. A query parameter
  is a string, so it is truthy unless it is absent or empty; an identifier parameter
  is the number its non-empty string denotes.

  The database compares DATEONLY values as dates. The model covers dates written
  \<open>YYYY-MM-DD\<close>, as the column returns them and \<open>dateRegex\<close> demands of a request body:
  for these the order of dates is the order of the numbers their digits spell, which
  \<open>date_key\<close> computes. A bound in another notation (\<open>2025-1-31\<close>), or one that names no
  day of the calendar, is outside the model.
\<close>

record session_where =
  w_date_gte :: "string option"
  w_date_lte :: "string option"
  w_batchId :: "nat option"
  w_sessionTypeId :: "nat option"

definition empty_where :: session_where where
  "empty_where = \<lparr>w_date_gte = None, w_date_lte = None, w_batchId = None, w_sessionTypeId = None\<rparr>"

definition digit_val :: "char \<Rightarrow> nat" where
  "digit_val c = length (takeWhile (\<lambda>d. d \<noteq> c) ''0123456789'')"

definition date_key :: "string \<Rightarrow> nat" where
  "date_key s = foldl (\<lambda>n c. 10 * n + digit_val c) 0 (filter is_digit s)"

definition session_matches :: "session_where \<Rightarrow> session \<Rightarrow> bool" where
  "session_matches w s =
     ((case w_date_gte w of None \<Rightarrow> True | Some d \<Rightarrow> date_key d \<le> date_key (s_date s)) \<and>
      (case w_date_lte w of None \<Rightarrow> True | Some d \<Rightarrow> date_key (s_date s) \<le> date_key d) \<and>
      (case w_batchId w of None \<Rightarrow> True | Some b \<Rightarrow> s_batchId s = b) \<and>
      (case w_sessionTypeId w of None \<Rightarrow> True | Some t \<Rightarrow> s_sessionTypeId s = t))"

definition Session_findAll :: "db \<Rightarrow> session_where \<Rightarrow> session list" where
  "Session_findAll dbs w = filter (session_matches w) (sessions dbs)"

definition dateClause :: "string option \<Rightarrow> string option \<Rightarrow> session_where \<Rightarrow> session_where" where
  "dateClause startDate endDate w =
     (if truthy_str startDate \<or> truthy_str endDate
      then w\<lparr>w_date_gte := (if truthy_str startDate then startDate else None),
             w_date_lte := (if truthy_str endDate then endDate else None)\<rparr>
      else w)"

definition batchClause :: "nat option \<Rightarrow> session_where \<Rightarrow> session_where" where
  "batchClause batchId w = (case batchId of None \<Rightarrow> w | Some b \<Rightarrow> w\<lparr>w_batchId := Some b\<rparr>)"

definition sessionTypeClause :: "nat option \<Rightarrow> session_where \<Rightarrow> session_where" where
  "sessionTypeClause sessionTypeId w =
     (case sessionTypeId of None \<Rightarrow> w | Some t \<Rightarrow> w\<lparr>w_sessionTypeId := Some t\<rparr>)"

subsection \<open>JavaScript numbers\<close>

text \<open>
  A JavaScript number is an IEEE 754 double; it is modelled by the rational it denotes.
  \<open>double x\<close> is the double nearest to the rational \<open>x\<close>, the one with the even
  significand of two equally near: \<open>x\<close> is scaled by the power of two that brings it
  into the range from \<open>2 ^ 52\<close> to \<open>2 ^ 53\<close>, rounded to an integer and scaled back. The
  range of exponents is not bounded: the numbers of the handlers are counts, which are
  exact, and rates between 0 and 100, far from overflow and from the subnormal numbers.
  \<open>bits n\<close> is the length of the binary numeral of \<open>n\<close>.

  On numbers \<open>a / b\<close> is \<open>double (a / b)\<close> and \<open>a * b\<close> is \<open>double (a * b)\<close>, of the exact
  quotient and product.
\<close>

function bits :: "int \<Rightarrow> nat" where
  "bits n = (if n \<le> 0 then 0 else Suc (bits (n div 2)))"
  by pat_completeness auto
termination
  by (relation "measure nat") auto

declare bits.simps [simp del]

definition round_even :: "rat \<Rightarrow> int" where
  "round_even y =
     (let f = \<lfloor>y\<rfloor>; r = y - of_int f
      in if r < 1 / 2 then f else if 1 / 2 < r then f + 1 else if even f then f else f + 1)"

definition binade :: "rat \<Rightarrow> int" where
  "binade a =
     (let k = 53 + int (bits (snd (quotient_of a))) - int (bits (fst (quotient_of a)))
      in if a * 2 powi k < 2 ^ 53 then k else k - 1)"

definition double :: "rat \<Rightarrow> rat" where
  "double x =
     (if x = 0 then 0
      else sgn x * of_int (round_even (\<bar>x\<bar> * 2 powi binade \<bar>x\<bar>)) / 2 powi binade \<bar>x\<bar>)"

text \<open>
  \<open>x.toFixed(2)\<close> writes \<open>n / 100\<close> with two decimals, \<open>n\<close> being the integer for which
  \<open>n / 100\<close> is nearest to the exact value of \<open>x\<close>, the larger of two equally near; a
  negative \<open>x\<close> is written as the minus sign and the digits of \<open>-x\<close>. \<open>toFixed2 x\<close> is the
  number the string denotes; \<open>parseFloat\<close> reads it back as the nearest double.
\<close>

definition toFixed2 :: "rat \<Rightarrow> rat" where
  "toFixed2 x = sgn x * of_int \<lfloor>\<bar>x\<bar> * 100 + 1 / 2\<rfloor> / 100"

definition parseFloat_toFixed2 :: "rat \<Rightarrow> rat" where
  "parseFloat_toFixed2 x = double (toFixed2 x)"

subsection \<open>getAttendanceStats\<close>

text \<open>
  The counts come from the database as integers. The rate is computed as
  \<open>((presentCount + lateCount) / total) * 100\<close>, a sum of integers, a division and a
  multiplication of doubles, and answered as \<open>parseFloat(attendanceRate.toFixed(2))\<close>.
\<close>

record stats =
  totalSessions :: nat
  totalAttendanceRecords :: nat
  present :: nat
  absent :: nat
  late :: nat
  excused :: nat
  attendanceRate :: rat

definition getAttendanceStats ::
  "db \<Rightarrow> string option \<Rightarrow> string option \<Rightarrow> nat option \<Rightarrow> stats response" where
  "getAttendanceStats dbs startDate endDate batchId =
     (let sessionWhereClause = batchClause batchId (dateClause startDate endDate empty_where);
          ss = Session_findAll dbs sessionWhereClause;
          sessionIds = map s_id ss
      in if length sessionIds = 0
         then Success 200
                \<lparr>totalSessions = 0, totalAttendanceRecords = 0, present = 0, absent = 0,
                 late = 0, excused = 0, attendanceRate = 0\<rparr>
         else
           let totalRecords = Attendance_count dbs (\<lambda>a. a_sessionId a \<in> set sessionIds);
               presentCount = Attendance_count dbs
                 (\<lambda>a. a_sessionId a \<in> set sessionIds \<and> a_status a = ''present'');
               absentCount = Attendance_count dbs
                 (\<lambda>a. a_sessionId a \<in> set sessionIds \<and> a_status a = ''absent'');
               lateCount = Attendance_count dbs
                 (\<lambda>a. a_sessionId a \<in> set sessionIds \<and> a_status a = ''late'');
               excusedCount = Attendance_count dbs
                 (\<lambda>a. a_sessionId a \<in> set sessionIds \<and> a_status a = ''excused'');
               rate = (if totalRecords > 0
                       then double (double (of_nat (presentCount + lateCount)
                                             / of_nat totalRecords) * 100)
                       else 0)
           in Success 200
                \<lparr>totalSessions = length ss, totalAttendanceRecords = totalRecords,
                 present = presentCount, absent = absentCount, late = lateCount,
                 excused = excusedCount, attendanceRate = parseFloat_toFixed2 rate\<rparr>)"

subsection \<open>getAttendanceReports\<close>

text \<open>
  The report's global statistics. When no session matches, the handler answers with
  \<open>statistics: {}\<close>, an object without any field: \<open>None\<close> here. Otherwise it loads the
  santri users with \<open>include: [{ model: Batch }, { model: Division }]\<close>, where the
  identifier \<open>Division\<close> is looked up, then the attendance rows of the matching sessions
  and of those users, and counts them; the rate is computed as in \<open>getAttendanceStats\<close>
  and answered as it is, without \<open>toFixed\<close>. The list of sessions in the answer and the
  groupings by batch, division and session type are not part of the model.
\<close>

record report_statistics =
  r_totalSessions :: nat
  r_totalUsers :: nat
  r_totalRecords :: nat
  r_present :: nat
  r_absent :: nat
  r_late :: nat
  r_excused :: nat
  r_attendanceRate :: rat

definition getAttendanceReports_in ::
  "string list \<Rightarrow> db \<Rightarrow> string option \<Rightarrow> string option \<Rightarrow> nat option \<Rightarrow> nat option
     \<Rightarrow> nat option \<Rightarrow> report_statistics option response" where
  "getAttendanceReports_in scope dbs startDate endDate batchId divisionId sessionTypeId =
     (let sessionWhereClause =
            sessionTypeClause sessionTypeId
              (batchClause batchId (dateClause startDate endDate empty_where));
          ss = Session_findAll dbs sessionWhereClause
      in if length ss = 0
         then Success 200 None
         else if \<not> bound scope ''Division''
         then NextError (ReferenceError ''Division'')
         else
           let us = User_findAll dbs
                      (\<lambda>u. u_role u = ''santri'' \<and>
                           (case divisionId of None \<Rightarrow> True | Some d \<Rightarrow> u_divisionId u = Some d));
               sessionIds = map s_id ss;
               userIds = map u_id us;
               attendanceRecords =
                 Attendance_findAll dbs
                   (\<lambda>a. a_sessionId a \<in> set sessionIds \<and> a_userId a \<in> set userIds);
               totalRecords = length attendanceRecords;
               presentCount = length (filter (\<lambda>r. a_status r = ''present'') attendanceRecords);
               absentCount = length (filter (\<lambda>r. a_status r = ''absent'') attendanceRecords);
               lateCount = length (filter (\<lambda>r. a_status r = ''late'') attendanceRecords);
               excusedCount = length (filter (\<lambda>r. a_status r = ''excused'') attendanceRecords)
           in Success 200
                (Some \<lparr>r_totalSessions = length ss, r_totalUsers = length us,
                       r_totalRecords = totalRecords, r_present = presentCount,
                       r_absent = absentCount, r_late = lateCount, r_excused = excusedCount,
                       r_attendanceRate =
                         (if totalRecords > 0
                          then double (double (of_nat (presentCount + lateCount)
                                                / of_nat totalRecords) * 100)
                          else 0)\<rparr>))"

definition getAttendanceReports ::
  "db \<Rightarrow> string option \<Rightarrow> string option \<Rightarrow> nat option \<Rightarrow> nat option \<Rightarrow> nat option
     \<Rightarrow> report_statistics option response" where
  "getAttendanceReports = getAttendanceReports_in attendance_controller_scope"

text \<open>The rate each answer carries, if it carries one.\<close>

fun stats_rate :: "stats response \<Rightarrow> rat option" where
  "stats_rate (Success c st) = Some (attendanceRate st)"
| "stats_rate (Failure c m) = None"
| "stats_rate (NextError e) = None"

fun reports_rate :: "report_statistics option response \<Rightarrow> rat option" where
  "reports_rate (Success c (Some st)) = Some (r_attendanceRate st)"
| "reports_rate (Success c None) = None"
| "reports_rate (Failure c m) = None"
| "reports_rate (NextError e) = None"

section \<open>An example state\<close>

text \<open>
  One cohort of three santri and a staff member, a second cohort with one santri, a
  third without members; one session of the first cohort with its three attendance rows,
  one present, one late, one absent.
\<close>

definition pondok :: db where
  "pondok =
     \<lparr>users =
        [\<lparr>u_id = 10, u_role = ''santri'', u_batchId = Some 1, u_divisionId = Some 1\<rparr>,
         \<lparr>u_id = 11, u_role = ''santri'', u_batchId = Some 1, u_divisionId = None\<rparr>,
         \<lparr>u_id = 12, u_role = ''santri'', u_batchId = Some 1, u_divisionId = None\<rparr>,
         \<lparr>u_id = 13, u_role = ''staff'', u_batchId = Some 1, u_divisionId = None\<rparr>,
         \<lparr>u_id = 20, u_role = ''santri'', u_batchId = Some 2, u_divisionId = Some 1\<rparr>],
      batches =
        [\<lparr>b_id = 1, b_name = ''2025 Cohort'', b_year = 2025, b_isActive = True\<rparr>,
         \<lparr>b_id = 2, b_name = ''2024 Cohort'', b_year = 2024, b_isActive = True\<rparr>,
         \<lparr>b_id = 3, b_name = ''2026 Cohort'', b_year = 2026, b_isActive = False\<rparr>],
      divisions =
        [\<lparr>d_id = 1, d_name = ''Tahfidz'', d_isActive = True\<rparr>,
         \<lparr>d_id = 2, d_name = ''Media'', d_isActive = True\<rparr>],
      sessionTypes = [\<lparr>st_id = 1, st_name = ''Subuh''\<rparr>],
      sessions =
        [\<lparr>s_id = 1, s_date = ''2025-01-10'', s_startTime = ''05:00'', s_endTime = ''06:00'',
          s_sessionTypeId = 1, s_batchId = 1, s_divisionId = 1, s_status = ''scheduled''\<rparr>],
      attendances =
        [\<lparr>a_id = 1, a_sessionId = 1, a_userId = 10, a_status = ''present'', a_notes = None,
          a_verifiedBy = Some 13, a_verifiedAt = Some 900\<rparr>,
         \<lparr>a_id = 2, a_sessionId = 1, a_userId = 11, a_status = ''late'', a_notes = None,
          a_verifiedBy = Some 13, a_verifiedAt = Some 900\<rparr>,
         \<lparr>a_id = 3, a_sessionId = 1, a_userId = 12, a_status = ''absent'', a_notes = None,
          a_verifiedBy = None, a_verifiedAt = None\<rparr>]\<rparr>"


section \<open>Notions of the specification\<close>

text \<open>The attendance table has at most one row for a pair of session and user.\<close>

definition unique_pairs :: "db \<Rightarrow> bool" where
  "unique_pairs dbs = distinct (map (\<lambda>a. (a_sessionId a, a_userId a)) (attendances dbs))"

text \<open>
  An entry of a bulk update is well formed when it has an id, a status, and the status is
  one of the four. The handler's test \<open>!item.id\<close> takes the id 0 for a missing one.
\<close>

definition valid_item :: "item \<Rightarrow> bool" where
  "valid_item it =
     (case i_id it of
        None \<Rightarrow> False
      | Some k \<Rightarrow> k \<noteq> 0 \<and>
          (case i_status it of None \<Rightarrow> False | Some st \<Rightarrow> st \<in> set validStatuses))"

text \<open>
  What one entry does to the row it addresses, the entries that address a row, the rows
  of a session that some entry addresses, and a row after all entries that address it
  have been applied in their order.
\<close>

definition apply_item :: "nat \<Rightarrow> nat \<Rightarrow> item \<Rightarrow> attendance \<Rightarrow> attendance" where
  "apply_item actor now it a =
     a\<lparr>a_status := or_str (i_status it) [],
       a_notes := (case i_notes it of None \<Rightarrow> a_notes a | Some n \<Rightarrow> Some n),
       a_verifiedBy := Some actor, a_verifiedAt := Some now\<rparr>"

definition items_for :: "attendance \<Rightarrow> item list \<Rightarrow> item list" where
  "items_for a items = filter (\<lambda>it. i_id it = Some (a_id a)) items"

definition targeted :: "nat \<Rightarrow> item list \<Rightarrow> attendance \<Rightarrow> bool" where
  "targeted sid items a = (a_sessionId a = sid \<and> items_for a items \<noteq> [])"

definition row_after :: "nat \<Rightarrow> nat \<Rightarrow> nat \<Rightarrow> item list \<Rightarrow> attendance \<Rightarrow> attendance" where
  "row_after actor now sid items a =
     (if a_sessionId a = sid
      then foldl (\<lambda>r it. apply_item actor now it r) a (items_for a items)
      else a)"












text \<open>
  The attendance rate of a list of rows: (present + late) / total \<times> 100, and 0 for no
  row, as an exact fraction. The rows of a list of sessions, the rows of all other
  sessions, and the rows of a list of sessions that belong to santri users.
\<close>

definition count_status :: "string \<Rightarrow> attendance list \<Rightarrow> nat" where
  "count_status st rows = length (filter (\<lambda>a. a_status a = st) rows)"


definition rows_of_sessions :: "db \<Rightarrow> session list \<Rightarrow> attendance list" where
  "rows_of_sessions dbs ss = filter (\<lambda>a. a_sessionId a \<in> set (map s_id ss)) (attendances dbs)"


definition santri_ids :: "db \<Rightarrow> nat list" where
  "santri_ids dbs = map u_id (filter (\<lambda>u. u_role u = ''santri'') (users dbs))"

definition santri_rows_of_sessions :: "db \<Rightarrow> session list \<Rightarrow> attendance list" where
  "santri_rows_of_sessions dbs ss =
     filter (\<lambda>a. a_userId a \<in> set (santri_ids dbs)) (rows_of_sessions dbs ss)"

text \<open>The attendance module as it would be with \<open>Division\<close> among its imports.\<close>

definition scope_with_Division :: "string list" where
  "scope_with_Division = ''Division'' # attendance_controller_scope"

text \<open>
  The rate of a list of rows as both reporting handlers compute it, in double
  arithmetic: the sum of two counts, a division and a multiplication.
\<close>

definition computed_rate :: "attendance list \<Rightarrow> rat" where
  "computed_rate rows =
     (if length rows > 0
      then double (double (of_nat (count_status ''present'' rows + count_status ''late'' rows)
                            / of_nat (length rows)) * 100)
      else 0)"

section \<open>Deleting batches and divisions\<close>






section \<open>Updating a batch\<close>

text \<open>
  The division and session controllers, which run the same kind of duplicate check,
  import \<open>Op\<close>; the batch controller does not.
\<close>

lemma Op_in_scope_of_siblings:
  "bound division_controller_scope ''Op'' \<and> bound session_controller_scope ''Op'' \<and>
   bound attendance_controller_scope ''Op'' \<and> \<not> bound batch_controller_scope ''Op''"
  by (simp add: bound_def division_controller_scope_def session_controller_scope_def
      attendance_controller_scope_def batch_controller_scope_def)

text \<open>
  Where \<open>Op\<close> is in scope, the duplicate check answers 400 and leaves the state alone
  when another batch has the name and the year.
\<close>

lemma updateBatch_in_conflict:
  assumes "bound scope ''Op''" and "Batch_findByPk dbs i = Some b"
    and "truthy_str name" and "truthy_num year"
    and "x \<in> set (batches dbs)" and "b_id x \<noteq> i"
    and "Some (b_name x) = name" and "Some (b_year x) = year"
  shows "updateBatch_in scope dbs i name year isActive =
           (dbs, Failure 400 ''Batch with this name and year already exists'')"
proof -
  have "Batch_findOne dbs
          (\<lambda>x. b_id x \<noteq> i \<and> Some (b_name x) = name \<and> Some (b_year x) = year) \<noteq> None"
    using assms(5-8) by (auto simp: Batch_findOne_def find_None_iff)
  with assms(1-4) show ?thesis by (simp add: updateBatch_in_def)
qed

text \<open>
  With a name and a year that are both truthy, \<open>updateBatch\<close> on an existing batch ends
  at the lookup of \<open>Op\<close>, whatever the state.
\<close>

lemma updateBatch_stops_at_Op:
  assumes "Batch_findByPk dbs i = Some b" and "truthy_str name" and "truthy_num year"
  shows "updateBatch dbs i name year isActive = (dbs, NextError (ReferenceError ''Op''))"
  using assms
  by (simp add: updateBatch_def updateBatch_in_def batch_controller_scope_def bound_def)

text \<open>
  Claim C8. \<open>updateBatch\<close> with both a name and a year on an existing batch should end
  in a conflict answer or in success, never in an internal error. The batch controller
  does not import \<open>Op\<close>, which its duplicate check names: in the example state the call
  ends in \<open>next(error)\<close> with a \<open>ReferenceError\<close>, and changes nothing, both when another
  batch has the name and year and when none has.
\<close>

theorem updateBatch_ends_in_ReferenceError:
  "updateBatch pondok 1 (Some ''2024 Cohort'') (Some 2024) None =
     (pondok, NextError (ReferenceError ''Op'')) \<and>
   updateBatch pondok 1 (Some ''2027 Cohort'') (Some 2027) None =
     (pondok, NextError (ReferenceError ''Op''))"
  by (simp add: updateBatch_def updateBatch_in_def batch_controller_scope_def bound_def
      Batch_findByPk_def pondok_def)

section \<open>Creating and updating a session\<close>

text \<open>
  The rows \<open>insertAbsent\<close> appends: one for each given user, in their order, of the given
  session, absent, without verifier.
\<close>

lemma insertAbsent_rows:
  "\<exists>new. attendances (insertAbsent dbs sid us) = attendances dbs @ new \<and>
         map a_userId new = map u_id us \<and>
         list_all (\<lambda>a. a_sessionId a = sid \<and> a_status a = ''absent'' \<and>
                       a_verifiedBy a = None \<and> a_verifiedAt a = None) new"
proof -
  have "map a_userId (assign_ids k (map (absentRecord sid) us)) = map u_id us \<and>
        list_all (\<lambda>a. a_sessionId a = sid \<and> a_status a = ''absent'' \<and>
                       a_verifiedBy a = None \<and> a_verifiedAt a = None)
          (assign_ids k (map (absentRecord sid) us))" for k
    by (induction us arbitrary: k) (simp_all add: absentRecord_def)
  then show ?thesis
    by (cases us) (auto simp: insertAbsent_def Attendance_bulkCreate_def Let_def)
qed

text \<open>\<open>createSession\<close> never gets past \<open>Session.create\<close>: no call changes the state.\<close>

lemma createSession_never_succeeds:
  "fst (createSession isDate dbs date sessionTypeId batchId) = dbs \<and>
   is_error (snd (createSession isDate dbs date sessionTypeId batchId))"
  by (simp add: createSession_def createSession_with_def Session_create_def Let_def
      split: option.splits)

text \<open>
  Were the session inserted, the handler would do what is asked of it: over any \<open>create\<close>
  that accepts the values and touches neither users nor attendance rows, it answers 201
  with the session and appends one row for each santri of the batch, of that session,
  absent, without verifier, and no other row.
\<close>

lemma createSession_with_rows:
  assumes "date = Some d" and "dateRegex_test d"
    and "SessionType_findByPk dbs t = Some st" and "Batch_findByPk dbs b = Some bt"
    and "Session_findOne dbs
           (\<lambda>s. s_date s = d \<and> s_sessionTypeId s = t \<and> s_batchId s = b) = None"
    and "create dbs d t b ''scheduled'' = Inr (dbs1, s)"
    and "users dbs1 = users dbs" and "attendances dbs1 = attendances dbs"
  shows "\<exists>new. snd (createSession_with create dbs date t b) = Success 201 s \<and>
           attendances (fst (createSession_with create dbs date t b)) = attendances dbs @ new \<and>
           map a_userId new = map u_id (santriOfBatch dbs b) \<and>
           length new = length (santriOfBatch dbs b) \<and>
           list_all (\<lambda>a. a_sessionId a = s_id s \<and> a_status a = ''absent'' \<and>
                         a_verifiedBy a = None \<and> a_verifiedAt a = None) new"
proof -
  have same: "santriOfBatch dbs1 b = santriOfBatch dbs b"
    using assms(7) by (simp add: santriOfBatch_def User_findAll_def)
  have run: "createSession_with create dbs date t b =
               (insertAbsent dbs1 (s_id s) (santriOfBatch dbs b), Success 201 s)"
    using assms(1-6) same by (simp add: createSession_with_def)
  obtain new where new: "attendances (insertAbsent dbs1 (s_id s) (santriOfBatch dbs b)) =
                           attendances dbs1 @ new"
      "map a_userId new = map u_id (santriOfBatch dbs b)"
      "list_all (\<lambda>a. a_sessionId a = s_id s \<and> a_status a = ''absent'' \<and>
                     a_verifiedBy a = None \<and> a_verifiedAt a = None) new"
    using insertAbsent_rows [of dbs1 "s_id s" "santriOfBatch dbs b"] by blast
  from new(2) have "length new = length (santriOfBatch dbs b)"
    by (rule map_eq_imp_length_eq)
  with run new assms(8) show ?thesis by auto
qed

text \<open>
  Claim C4. \<open>createSession\<close> with a well-formed date, an existing session type, an
  existing batch and no session for the same date, type and batch should create the
  session and one absent row for each santri of the batch. The handler gives
  \<open>Session.create\<close> no \<open>startTime\<close>, \<open>endTime\<close> or \<open>divisionId\<close>, which the Session model
  requires: in the example state the call ends in \<open>next(error)\<close> with the validation
  error, and neither a session nor an attendance row is created.
\<close>

theorem createSession_rejected_by_model:
  "createSession isDate pondok (Some ''2025-01-11'') 1 1 =
     (pondok, NextError (ValidationError ''notNull Violation: Session.startTime cannot be null''))"
  by (simp add: createSession_def createSession_with_def pondok_def dateRegex_test_def
      is_digit_def SessionType_findByPk_def Batch_findByPk_def Session_findOne_def
      Session_create_def)

text \<open>
  In \<open>updateSession\<close> a truthy \<open>batchId\<close> is what \<open>session.batchId\<close> holds after the
  update, so no call changes the attendance table.
\<close>

lemma or_num_same: "truthy_num b \<Longrightarrow> or_num b x = or_num b y"
  by (cases b) auto

lemma updateSession_never_touches_rows:
  "attendances (fst (updateSession isDate dbs i date sessionTypeId batchId status)) = attendances dbs"
  by (auto simp: updateSession_def Let_def Session_save_def or_num_same [of batchId 0]
      split: option.splits)

text \<open>
  Claim C2. \<open>updateSession\<close> with a \<open>batchId\<close> other than the session's should delete the
  session's attendance rows and insert one absent row for each santri of the new batch.
  The handler compares \<open>batchId\<close> with \<open>session.batchId\<close> after \<open>session.update\<close> has
  stored the new value there, so the two are equal and the rows are never touched: in
  the example state the session moves to the second cohort, the call answers 200, and
  the session keeps the rows of users 10, 11 and 12 of the first cohort and gets none for
  user 20, the santri of the second.
\<close>

theorem updateSession_keeps_old_rows:
  "snd (updateSession isDate pondok 1 None None (Some 2) None) =
     Success 200 \<lparr>s_id = 1, s_date = ''2025-01-10'', s_startTime = ''05:00'',
                  s_endTime = ''06:00'', s_sessionTypeId = 1, s_batchId = 2, s_divisionId = 1,
                  s_status = ''scheduled''\<rparr> \<and>
   map s_batchId (sessions (fst (updateSession isDate pondok 1 None None (Some 2) None))) = [2] \<and>
   attendances (fst (updateSession isDate pondok 1 None None (Some 2) None)) = attendances pondok \<and>
   map a_userId (attendances pondok) = [10, 11, 12] \<and>
   map u_id (santriOfBatch pondok 2) = [20]"
  by (simp add: updateSession_def pondok_def Session_findByPk_def Batch_findByPk_def
      Session_findOne_def Session_save_def santriOfBatch_def User_findAll_def Let_def)

section \<open>Generating attendance rows\<close>

lemma assign_ids_pairs:
  "map (\<lambda>a. (a_sessionId a, a_userId a)) (assign_ids k vs) =
     map (\<lambda>v. (n_sessionId v, n_userId v)) vs"
  by (induction vs arbitrary: k) simp_all

lemma bulkCreate_stamped_unique:
  assumes "unique_pairs dbs" and "distinct ids"
    and "\<And>uid a. uid \<in> set ids \<Longrightarrow> a \<in> set (attendances dbs) \<Longrightarrow> a_sessionId a = sid
           \<Longrightarrow> a_userId a \<noteq> uid"
  shows "unique_pairs
           (fst (Attendance_bulkCreate dbs (map (stampedRecord sid st notes actor now) ids)))"
proof -
  have new: "map (\<lambda>a. (a_sessionId a, a_userId a))
               (assign_ids k (map (stampedRecord sid st notes actor now) ids)) =
             map (\<lambda>uid. (sid, uid)) ids" for k
    by (simp add: assign_ids_pairs stampedRecord_def comp_def)
  have "distinct (map (\<lambda>uid. (sid, uid)) ids)"
    using assms(2) by (simp add: distinct_map inj_on_def)
  moreover have "set (map (\<lambda>a. (a_sessionId a, a_userId a)) (attendances dbs)) \<inter>
                 set (map (\<lambda>uid. (sid, uid)) ids) = {}"
    using assms(3) by auto
  ultimately show ?thesis
    using assms(1) by (simp add: unique_pairs_def Attendance_bulkCreate_def Let_def new)
qed

lemma new_ids_have_no_row:
  assumes "uid \<in> set (filter (\<lambda>uid. uid \<notin> set (map a_userId
              (filter (\<lambda>a. a_sessionId a = sid \<and> a_userId a \<in> set ids) rows))) ids)"
    and "a \<in> set rows" and "a_sessionId a = sid"
  shows "a_userId a \<noteq> uid"
  using assms by auto

text \<open>
  A request that names no user twice keeps the pairs unique, and so does every call of
  \<open>generateAttendanceForBatch\<close>, whose users come from the users table with its key.
\<close>

lemma createAttendanceRecords_keeps_unique:
  assumes "unique_pairs dbs" and "distinct userIds"
  shows "unique_pairs (fst (createAttendanceRecords actor now dbs sid userIds st))"
proof -
  let ?new = "filter (\<lambda>uid. uid \<notin> set (map a_userId
              (filter (\<lambda>a. a_sessionId a = sid \<and> a_userId a \<in> set userIds) (attendances dbs))))
                userIds"
  have "unique_pairs (fst (Attendance_bulkCreate dbs
          (map (stampedRecord sid status None actor now) ?new)))" for status
    using assms(1)
  proof (rule bulkCreate_stamped_unique)
    show "distinct ?new" using assms(2) by simp
  qed (rule new_ids_have_no_row)
  then show ?thesis
    using assms(1)
    by (simp add: createAttendanceRecords_def Attendance_findAll_def Let_def case_prod_beta
        split: option.splits)
qed

lemma generateAttendanceForBatch_keeps_unique:
  assumes "unique_pairs dbs" and "distinct (map u_id (users dbs))"
  shows "unique_pairs (fst (generateAttendanceForBatch session_batch actor now dbs sid st))"
proof -
  have gen: "unique_pairs (fst (Attendance_bulkCreate dbs
          (map (\<lambda>u. stampedRecord sid status None actor now (u_id u))
             (filter (\<lambda>u. u_id u \<notin> set (map a_userId
                (filter (\<lambda>a. a_sessionId a = sid \<and> a_userId a \<in> set (map u_id us))
                   (attendances dbs)))) us))))"
    if "us = User_findAll dbs p" for status us p
  proof -
    let ?ids = "map u_id us"
    let ?new = "filter (\<lambda>uid. uid \<notin> set (map a_userId
              (filter (\<lambda>a. a_sessionId a = sid \<and> a_userId a \<in> set ?ids) (attendances dbs)))) ?ids"
    have d: "distinct ?ids"
      using assms(2) that by (simp add: User_findAll_def distinct_map_filter)
    have e: "map (\<lambda>u. stampedRecord sid status None actor now (u_id u))
             (filter (\<lambda>u. u_id u \<notin> set (map a_userId
                (filter (\<lambda>a. a_sessionId a = sid \<and> a_userId a \<in> set ?ids) (attendances dbs)))) us) =
          map (stampedRecord sid status None actor now) ?new"
      by (simp add: filter_map comp_def)
    have "unique_pairs
            (fst (Attendance_bulkCreate dbs (map (stampedRecord sid status None actor now) ?new)))"
      using assms(1)
    proof (rule bulkCreate_stamped_unique)
      show "distinct ?new" using d by simp
    qed (rule new_ids_have_no_row)
    then show ?thesis by (simp only: e)
  qed
  show ?thesis
    using assms(1) gen [OF refl]
    by (simp add: generateAttendanceForBatch_def Attendance_findAll_def Let_def case_prod_beta
        split: option.splits)
qed

text \<open>
  Claim C5. \<open>createAttendanceRecords\<close> and \<open>generateAttendanceForBatch\<close> should keep the
  attendance table free of two rows for one pair of session and user.
  \<open>createAttendanceRecords\<close> removes from the requested ids those that have a row, and
  not those that occur twice in the request: in the example state, where no pair has
  two rows, the request for user 20 twice inserts two rows for session 1 and user 20.
\<close>

theorem createAttendanceRecords_inserts_pair_twice:
  "unique_pairs pondok \<and>
   \<not> unique_pairs (fst (createAttendanceRecords 13 1000 pondok 1 [20, 20] None)) \<and>
   map (\<lambda>a. (a_sessionId a, a_userId a))
     (attendances (fst (createAttendanceRecords 13 1000 pondok 1 [20, 20] None))) =
     [(1, 10), (1, 11), (1, 12), (1, 20), (1, 20)]"
  by (simp add: unique_pairs_def createAttendanceRecords_def pondok_def Session_findByPk_def
      validStatuses_def Attendance_findAll_def Attendance_bulkCreate_def next_id_def
      stampedRecord_def Let_def)

lemma all_have_rows_none_new:
  assumes "\<forall>uid \<in> set ids. \<exists>a \<in> set rows. a_sessionId a = sid \<and> a_userId a = uid"
  shows "filter (\<lambda>uid. uid \<notin> set (map a_userId
            (filter (\<lambda>a. a_sessionId a = sid \<and> a_userId a \<in> set ids) rows))) ids = []"
  using assms by (force simp: filter_empty_conv)

lemma all_users_have_rows_none_new:
  assumes "\<forall>u \<in> set us. \<exists>a \<in> set rows. a_sessionId a = sid \<and> a_userId a = u_id u"
  shows "filter (\<lambda>u. u_id u \<notin> set (map a_userId
            (filter (\<lambda>a. a_sessionId a = sid \<and> a_userId a \<in> set (map u_id us)) rows))) us = []"
  using assms by (force simp: filter_empty_conv)

text \<open>
  Claim C10. When every user a call of \<open>createAttendanceRecords\<close> names, or every santri
  of the session's batch in a call of \<open>generateAttendanceForBatch\<close>, has an attendance
  row for the session already, the call ends in an error and leaves the state as it
  was. Where the session exists, the status is valid and there is a user to create rows
  for, the error is the answer 400 that says all of them have records.
\<close>

theorem full_overlap_rejected:
  "((\<forall>uid \<in> set userIds. \<exists>a \<in> set (attendances dbs). a_sessionId a = sid \<and> a_userId a = uid) \<longrightarrow>
      fst (createAttendanceRecords actor now dbs sid userIds st) = dbs \<and>
      is_error (snd (createAttendanceRecords actor now dbs sid userIds st)) \<and>
      (userIds \<noteq> [] \<and> Session_findByPk dbs sid \<noteq> None \<and>
       or_str st ''absent'' \<in> set validStatuses \<longrightarrow>
         snd (createAttendanceRecords actor now dbs sid userIds st) =
           Failure 400 ''All specified users already have attendance records for this session'')) \<and>
   ((\<forall>s. Session_findByPk dbs sid = Some s \<longrightarrow>
         (\<forall>u \<in> set (santriOfBatch dbs (s_batchId s)).
            \<exists>a \<in> set (attendances dbs). a_sessionId a = sid \<and> a_userId a = u_id u)) \<longrightarrow>
      fst (generateAttendanceForBatch session_batch actor now dbs sid st) = dbs \<and>
      is_error (snd (generateAttendanceForBatch session_batch actor now dbs sid st)) \<and>
      ((\<exists>s. Session_findByPk dbs sid = Some s \<and> s_batchId s \<noteq> 0 \<and>
            santriOfBatch dbs (s_batchId s) \<noteq> []) \<and>
       or_str st ''absent'' \<in> set validStatuses \<longrightarrow>
         snd (generateAttendanceForBatch session_batch actor now dbs sid st) =
           Failure 400
             ''All users in this batch already have attendance records for this session''))"
proof (intro conjI impI)
  assume h: "\<forall>uid \<in> set userIds. \<exists>a \<in> set (attendances dbs). a_sessionId a = sid \<and> a_userId a = uid"
  note e = all_have_rows_none_new [OF h]
  show "fst (createAttendanceRecords actor now dbs sid userIds st) = dbs"
    using e
    by (simp add: createAttendanceRecords_def Attendance_findAll_def Let_def split: option.splits)
  show "is_error (snd (createAttendanceRecords actor now dbs sid userIds st))"
    using e
    by (simp add: createAttendanceRecords_def Attendance_findAll_def Let_def split: option.splits)
  assume "userIds \<noteq> [] \<and> Session_findByPk dbs sid \<noteq> None \<and>
          or_str st ''absent'' \<in> set validStatuses"
  then show "snd (createAttendanceRecords actor now dbs sid userIds st) =
           Failure 400 ''All specified users already have attendance records for this session''"
    using e
    by (auto simp: createAttendanceRecords_def Attendance_findAll_def Let_def)
next
  assume h: "\<forall>s. Session_findByPk dbs sid = Some s \<longrightarrow>
         (\<forall>u \<in> set (santriOfBatch dbs (s_batchId s)).
            \<exists>a \<in> set (attendances dbs). a_sessionId a = sid \<and> a_userId a = u_id u)"
  have e: "filter (\<lambda>u. u_id u \<notin> set (map a_userId
            (filter (\<lambda>a. a_sessionId a = sid \<and>
                         a_userId a \<in> set (map u_id (santriOfBatch dbs (s_batchId s))))
               (attendances dbs)))) (santriOfBatch dbs (s_batchId s)) = []"
    if "Session_findByPk dbs sid = Some s" for s
    using h that by (intro all_users_have_rows_none_new) blast
  show "fst (generateAttendanceForBatch session_batch actor now dbs sid st) = dbs"
    using e
    by (simp add: generateAttendanceForBatch_def Attendance_findAll_def santriOfBatch_def Let_def
        split: option.splits)
  show "is_error (snd (generateAttendanceForBatch session_batch actor now dbs sid st))"
    using e
    by (simp add: generateAttendanceForBatch_def Attendance_findAll_def santriOfBatch_def Let_def
        split: option.splits)
  assume "(\<exists>s. Session_findByPk dbs sid = Some s \<and> s_batchId s \<noteq> 0 \<and>
            santriOfBatch dbs (s_batchId s) \<noteq> []) \<and>
          or_str st ''absent'' \<in> set validStatuses"
  then show "snd (generateAttendanceForBatch session_batch actor now dbs sid st) =
           Failure 400
             ''All users in this batch already have attendance records for this session''"
    using e
    by (auto simp: generateAttendanceForBatch_def Attendance_findAll_def santriOfBatch_def Let_def)
qed

text \<open>
  In the example state users 10 and 11, and all three santri of the first cohort, have
  their rows for session 1: both calls answer 400 and change nothing.
\<close>

theorem full_overlap_rejected_witness:
  "createAttendanceRecords 13 1000 pondok 1 [10, 11] None =
     (pondok, Failure 400 ''All specified users already have attendance records for this session'') \<and>
   generateAttendanceForBatch (\<lambda>d s. None) 13 1000 pondok 1 None =
     (pondok, Failure 400
        ''All users in this batch already have attendance records for this session'')"
proof -
  have s1: "Session_findByPk pondok 1 =
              Some \<lparr>s_id = 1, s_date = ''2025-01-10'', s_startTime = ''05:00'',
                    s_endTime = ''06:00'', s_sessionTypeId = 1, s_batchId = 1, s_divisionId = 1,
                    s_status = ''scheduled''\<rparr>"
    by (simp add: Session_findByPk_def pondok_def)
  have h1: "\<forall>uid \<in> set [10, 11]. \<exists>a \<in> set (attendances pondok). a_sessionId a = 1 \<and> a_userId a = uid"
    by (simp add: pondok_def)
  have h2: "\<forall>s. Session_findByPk pondok 1 = Some s \<longrightarrow>
         (\<forall>u \<in> set (santriOfBatch pondok (s_batchId s)).
            \<exists>a \<in> set (attendances pondok). a_sessionId a = 1 \<and> a_userId a = u_id u)"
    unfolding s1 by (simp add: santriOfBatch_def User_findAll_def pondok_def)
  have h3: "\<exists>s. Session_findByPk pondok 1 = Some s \<and> s_batchId s \<noteq> 0 \<and>
            santriOfBatch pondok (s_batchId s) \<noteq> []"
    unfolding s1 by (simp add: santriOfBatch_def User_findAll_def pondok_def)
  have v: "or_str None ''absent'' \<in> set validStatuses"
    by (simp add: validStatuses_def)
  from full_overlap_rejected [of "[10, 11]" pondok 1 13 1000 None "\<lambda>d s. None"] h1 h2 h3 v s1
  have "fst (createAttendanceRecords 13 1000 pondok 1 [10, 11] None) = pondok \<and>
        snd (createAttendanceRecords 13 1000 pondok 1 [10, 11] None) =
          Failure 400 ''All specified users already have attendance records for this session'' \<and>
        fst (generateAttendanceForBatch (\<lambda>d s. None) 13 1000 pondok 1 None) = pondok \<and>
        snd (generateAttendanceForBatch (\<lambda>d s. None) 13 1000 pondok 1 None) =
          Failure 400
            ''All users in this batch already have attendance records for this session''"
    by simp
  then show ?thesis by (simp add: prod_eq_iff)
qed

section \<open>Bulk update of a session's rows\<close>

lemma valid_item_iff:
  "valid_item it \<longleftrightarrow>
     truthy_num (i_id it) \<and> truthy_str (i_status it) \<and> or_str (i_status it) [] \<in> set validStatuses"
  by (cases "i_id it"; cases "i_status it") (auto simp: valid_item_def validStatuses_def)

lemma valid_item_status: "valid_item it \<Longrightarrow> i_status it = Some (or_str (i_status it) [])"
  by (cases "i_status it") (auto simp: valid_item_iff)

lemma validate_items_None_iff: "validate_items its = None \<longleftrightarrow> list_all valid_item its"
  by (induction its) (auto simp: valid_item_iff)

lemma apply_item_keys [simp]:
  "a_id (apply_item actor now it a) = a_id a"
  "a_sessionId (apply_item actor now it a) = a_sessionId a"
  "a_userId (apply_item actor now it a) = a_userId a"
  by (simp_all add: apply_item_def)

lemma items_for_apply_item [simp]:
  "items_for (apply_item actor now it a) its = items_for a its"
  by (simp add: items_for_def)

lemma targeted_apply_item [simp]:
  "targeted sid its (apply_item actor now it a) = targeted sid its a"
  by (simp add: targeted_def)

lemma foldl_apply_keys [simp]:
  "a_id (foldl (\<lambda>r it. apply_item actor now it r) a its) = a_id a"
  "a_sessionId (foldl (\<lambda>r it. apply_item actor now it r) a its) = a_sessionId a"
  "a_userId (foldl (\<lambda>r it. apply_item actor now it r) a its) = a_userId a"
  by (induction its arbitrary: a) simp_all

lemma row_after_keys [simp]:
  "a_id (row_after actor now sid its a) = a_id a"
  "a_sessionId (row_after actor now sid its a) = a_sessionId a"
  "a_userId (row_after actor now sid its a) = a_userId a"
  by (simp_all add: row_after_def)

lemma row_after_Nil [simp]: "row_after actor now sid [] a = a"
  by (simp add: row_after_def items_for_def)

text \<open>The key of the attendance table names one row.\<close>

lemma same_key_same_row:
  assumes "distinct (map a_id rows)" "a \<in> set rows" "r \<in> set rows" "a_id a = a_id r"
  shows "a = r"
  using assms by (meson distinct_map inj_on_eq_iff)

lemma image_filter_map_keys:
  assumes "\<And>a. g (f a) = g a" and "\<And>a. T (f a) = T a"
  shows "g ` {a \<in> set (map f xs). T a} = g ` {a \<in> set xs. T a}"
proof -
  have "{a \<in> set (map f xs). T a} = f ` {a \<in> set xs. T a}"
    using assms(2) by auto
  then show ?thesis by (simp add: image_image assms(1))
qed

text \<open>
  The second loop, entry after entry on the table as the entries before have left it,
  comes to the same as treating every row by itself.
\<close>

lemma update_items_rowwise:
  assumes "distinct (map a_id (attendances dbs))"
  shows "fst (update_items actor now sid dbs ups its) =
           dbs\<lparr>attendances := map (row_after actor now sid its) (attendances dbs)\<rparr>"
  using assms
proof (induction its arbitrary: dbs ups)
  case Nil
  then show ?case by simp
next
  case (Cons it its)
  show ?case
  proof (cases "Attendance_findOne dbs (\<lambda>a. Some (a_id a) = i_id it \<and> a_sessionId a = sid)")
    case None
    then have no: "\<And>a. a \<in> set (attendances dbs) \<Longrightarrow> a_sessionId a = sid
                     \<Longrightarrow> i_id it \<noteq> Some (a_id a)"
      by (auto simp: Attendance_findOne_def find_None_iff)
    have "map (row_after actor now sid (it # its)) (attendances dbs) =
          map (row_after actor now sid its) (attendances dbs)"
      by (rule map_cong) (auto simp: row_after_def items_for_def dest: no)
    with None Cons show ?thesis by simp
  next
    case (Some r)
    then have r: "r \<in> set (attendances dbs)" "Some (a_id r) = i_id it" "a_sessionId r = sid"
      by (auto simp: Attendance_findOne_def find_Some_iff)
    let ?dbs1 = "Attendance_update dbs (a_id r) (or_str (i_status it) [])
               (case i_notes it of None \<Rightarrow> a_notes r | Some n \<Rightarrow> Some n) (Some actor) (Some now)"
    have rows1: "attendances ?dbs1 =
        map (\<lambda>a. if a_id a = a_id r then apply_item actor now it a else a) (attendances dbs)"
      unfolding Attendance_update_def
      by (auto simp: apply_item_def dest: same_key_same_row [OF Cons.prems _ r(1)])
    have d1: "distinct (map a_id (attendances ?dbs1))"
    proof -
      have "map a_id (attendances ?dbs1) = map a_id (attendances dbs)"
        unfolding rows1 by (induction "attendances dbs") auto
      then show ?thesis using Cons.prems by simp
    qed
    have other: "?dbs1\<lparr>attendances := xs\<rparr> = dbs\<lparr>attendances := xs\<rparr>" for xs
      by (simp add: Attendance_update_def)
    have "map (row_after actor now sid its) (attendances ?dbs1) =
          map (row_after actor now sid (it # its)) (attendances dbs)"
      unfolding rows1 map_map
    proof (rule map_cong [OF refl])
      fix a assume a: "a \<in> set (attendances dbs)"
      show "(row_after actor now sid its \<circ>
               (\<lambda>a. if a_id a = a_id r then apply_item actor now it a else a)) a =
            row_after actor now sid (it # its) a"
      proof (cases "a_id a = a_id r")
        case True
        with a r Cons.prems have "a = r" by (auto dest: same_key_same_row)
        with r show ?thesis by (simp add: row_after_def items_for_def)
      next
        case False
        with r show ?thesis by (auto simp: row_after_def items_for_def)
      qed
    qed
    with Some Cons.IH [OF d1] other show ?thesis by simp
  qed
qed

lemma update_items_updates:
  assumes "distinct (map a_id (attendances dbs))"
  shows "set (snd (update_items actor now sid dbs ups its)) =
           set ups \<union> a_id ` {a \<in> set (attendances dbs). targeted sid its a}"
  using assms
proof (induction its arbitrary: dbs ups)
  case Nil
  then show ?case by (simp add: targeted_def items_for_def)
next
  case (Cons it its)
  show ?case
  proof (cases "Attendance_findOne dbs (\<lambda>a. Some (a_id a) = i_id it \<and> a_sessionId a = sid)")
    case None
    then have no: "\<And>a. a \<in> set (attendances dbs) \<Longrightarrow> a_sessionId a = sid
                     \<Longrightarrow> i_id it \<noteq> Some (a_id a)"
      by (auto simp: Attendance_findOne_def find_None_iff)
    have "{a \<in> set (attendances dbs). targeted sid (it # its) a} =
          {a \<in> set (attendances dbs). targeted sid its a}"
      by (auto simp: targeted_def items_for_def dest: no)
    with None Cons show ?thesis by simp
  next
    case (Some r)
    then have r: "r \<in> set (attendances dbs)" "Some (a_id r) = i_id it" "a_sessionId r = sid"
      by (auto simp: Attendance_findOne_def find_Some_iff)
    let ?dbs1 = "Attendance_update dbs (a_id r) (or_str (i_status it) [])
               (case i_notes it of None \<Rightarrow> a_notes r | Some n \<Rightarrow> Some n) (Some actor) (Some now)"
    have rows1: "attendances ?dbs1 =
        map (\<lambda>a. if a_id a = a_id r then apply_item actor now it a else a) (attendances dbs)"
      unfolding Attendance_update_def
      by (auto simp: apply_item_def dest: same_key_same_row [OF Cons.prems _ r(1)])
    have d1: "distinct (map a_id (attendances ?dbs1))"
    proof -
      have "map a_id (attendances ?dbs1) = map a_id (attendances dbs)"
        unfolding rows1 by (induction "attendances dbs") auto
      then show ?thesis using Cons.prems by simp
    qed
    have ids1: "a_id ` {a \<in> set (attendances ?dbs1). targeted sid its a} =
                a_id ` {a \<in> set (attendances dbs). targeted sid its a}"
      unfolding rows1 by (rule image_filter_map_keys) simp_all
    have split: "a_id ` {a \<in> set (attendances dbs). targeted sid (it # its) a} =
                 insert (a_id r) (a_id ` {a \<in> set (attendances dbs). targeted sid its a})"
    proof -
      have "targeted sid (it # its) a \<longleftrightarrow> a = r \<or> targeted sid its a"
        if "a \<in> set (attendances dbs)" for a
        using that r Cons.prems
        by (auto simp: targeted_def items_for_def dest: same_key_same_row)
      then have "{a \<in> set (attendances dbs). targeted sid (it # its) a} =
                 insert r {a \<in> set (attendances dbs). targeted sid its a}"
        using r(1) by auto
      then show ?thesis by simp
    qed
    from Some Cons.IH [OF d1] ids1 split show ?thesis by simp
  qed
qed

lemma updated_rows:
  assumes "distinct (map a_id rows)"
  shows "filter (\<lambda>a. a_id a \<in> a_id ` {b \<in> set rows. targeted sid its b})
           (map (row_after actor now sid its) rows) =
         map (row_after actor now sid its) (filter (targeted sid its) rows)"
proof -
  have "a_id a \<in> a_id ` {b \<in> set rows. targeted sid its b} \<longleftrightarrow> targeted sid its a"
    if "a \<in> set rows" for a
    using that assms by (auto dest: same_key_same_row)
  then show ?thesis
    by (simp add: filter_map comp_def cong: filter_cong)
qed

lemma row_after_untouched:
  "\<not> targeted sid its a \<Longrightarrow> row_after actor now sid its a = a"
  by (auto simp: row_after_def targeted_def)

lemma foldl_apply_last:
  assumes "its \<noteq> []"
  shows "a_status (foldl (\<lambda>r it. apply_item actor now it r) a its) =
           or_str (i_status (last its)) [] \<and>
         a_verifiedBy (foldl (\<lambda>r it. apply_item actor now it r) a its) = Some actor \<and>
         a_verifiedAt (foldl (\<lambda>r it. apply_item actor now it r) a its) = Some now"
  using assms
proof (induction its arbitrary: a rule: rev_induct)
  case Nil
  then show ?case by simp
next
  case (snoc x xs)
  then show ?case by (simp add: apply_item_def)
qed

lemma row_after_touched:
  assumes "targeted sid its a"
  shows "a_status (row_after actor now sid its a) =
           or_str (i_status (last (items_for a its))) [] \<and>
         a_verifiedBy (row_after actor now sid its a) = Some actor \<and>
         a_verifiedAt (row_after actor now sid its a) = Some now"
  using assms foldl_apply_last [of "items_for a its" actor now a]
  by (simp add: row_after_def targeted_def)

lemma last_item_valid:
  assumes "list_all valid_item its" and "targeted sid its a"
  shows "valid_item (last (items_for a its))"
proof -
  have "last (items_for a its) \<in> set (items_for a its)"
    using assms(2) by (simp add: targeted_def)
  then have "last (items_for a its) \<in> set its"
    by (simp add: items_for_def)
  with assms(1) show ?thesis by (simp add: list_all_iff)
qed

text \<open>
  Claim C7. \<open>bulkUpdateAttendance\<close> with a non-empty array on an existing session, the
  attendance table having its primary key. If some entry lacks an id or a status, or
  has a status outside the four, the call answers 400 and changes nothing. Otherwise the
  call answers 200 with the rows it wrote, and the table afterwards is the table before
  with every row treated by itself: a row outside the session, or one whose id no entry
  carries, is as it was (so an entry without a row in the session changes nothing and
  raises no error); a row of the session that entries address keeps its key, session
  and user, has the status of the last entry that addresses it, and carries the acting
  user as verifier and the time of the call.
\<close>

theorem bulkUpdateAttendance_rowwise:
  assumes "attendanceData \<noteq> []"
    and "Session_findByPk dbs sid = Some s"
    and "distinct (map a_id (attendances dbs))"
  shows "(\<not> list_all valid_item attendanceData \<longrightarrow>
            (\<exists>m. bulkUpdateAttendance actor now dbs sid attendanceData = (dbs, Failure 400 m))) \<and>
         (list_all valid_item attendanceData \<longrightarrow>
            bulkUpdateAttendance actor now dbs sid attendanceData =
              (dbs\<lparr>attendances := map (row_after actor now sid attendanceData) (attendances dbs)\<rparr>,
               Success 200
                 (map (row_after actor now sid attendanceData)
                    (filter (targeted sid attendanceData) (attendances dbs))))) \<and>
         (\<forall>a. \<not> targeted sid attendanceData a \<longrightarrow> row_after actor now sid attendanceData a = a) \<and>
         (\<forall>a. list_all valid_item attendanceData \<and> targeted sid attendanceData a \<longrightarrow>
              a_id (row_after actor now sid attendanceData a) = a_id a \<and>
              a_sessionId (row_after actor now sid attendanceData a) = sid \<and>
              a_userId (row_after actor now sid attendanceData a) = a_userId a \<and>
              Some (a_status (row_after actor now sid attendanceData a)) =
                i_status (last (items_for a attendanceData)) \<and>
              a_verifiedBy (row_after actor now sid attendanceData a) = Some actor \<and>
              a_verifiedAt (row_after actor now sid attendanceData a) = Some now)"
proof (intro conjI impI allI)
  assume "\<not> list_all valid_item attendanceData"
  then obtain m where "validate_items attendanceData = Some m"
    using validate_items_None_iff [of attendanceData] by (cases "validate_items attendanceData") auto
  with assms(1,2) show "\<exists>m. bulkUpdateAttendance actor now dbs sid attendanceData = (dbs, Failure 400 m)"
    by (simp add: bulkUpdateAttendance_def)
next
  assume "list_all valid_item attendanceData"
  then have v: "validate_items attendanceData = None"
    by (simp add: validate_items_None_iff)
  obtain dbs' ups where u: "update_items actor now sid dbs [] attendanceData = (dbs', ups)"
    by (cases "update_items actor now sid dbs [] attendanceData")
  have d: "dbs' = dbs\<lparr>attendances := map (row_after actor now sid attendanceData) (attendances dbs)\<rparr>"
    using update_items_rowwise [OF assms(3), of actor now sid "[]" attendanceData] u by simp
  have p: "set ups = a_id ` {a \<in> set (attendances dbs). targeted sid attendanceData a}"
    using update_items_updates [OF assms(3), of actor now sid "[]" attendanceData] u by simp
  show "bulkUpdateAttendance actor now dbs sid attendanceData =
              (dbs\<lparr>attendances := map (row_after actor now sid attendanceData) (attendances dbs)\<rparr>,
               Success 200
                 (map (row_after actor now sid attendanceData)
                    (filter (targeted sid attendanceData) (attendances dbs))))"
    using assms(1,2) v u
    by (simp add: bulkUpdateAttendance_def Attendance_findAll_def d p updated_rows [OF assms(3)])
next
  fix a assume "\<not> targeted sid attendanceData a"
  then show "row_after actor now sid attendanceData a = a" by (rule row_after_untouched)
next
  fix a assume h: "list_all valid_item attendanceData \<and> targeted sid attendanceData a"
  then have t: "targeted sid attendanceData a" and ok: "list_all valid_item attendanceData"
    by simp_all
  from t show "a_sessionId (row_after actor now sid attendanceData a) = sid"
    by (simp add: targeted_def)
  from row_after_touched [OF t, of actor now]
  show "a_verifiedBy (row_after actor now sid attendanceData a) = Some actor"
    and "a_verifiedAt (row_after actor now sid attendanceData a) = Some now"
    by simp_all
  from row_after_touched [OF t, of actor now] valid_item_status [OF last_item_valid [OF ok t]]
  show "Some (a_status (row_after actor now sid attendanceData a)) =
          i_status (last (items_for a attendanceData))"
    by simp
qed simp_all

text \<open>
  In the example state an entry for row 3 and one for a row 77 that does not exist:
  row 3 is excused with its note and stamped, rows 1 and 2 are as they were, and the
  answer carries row 3. An entry with an unknown status is refused.
\<close>

theorem bulkUpdateAttendance_rowwise_witness:
  "bulkUpdateAttendance 13 1000 pondok 1
     [\<lparr>i_id = Some 3, i_status = Some ''excused'', i_notes = Some ''sick''\<rparr>,
      \<lparr>i_id = Some 77, i_status = Some ''late'', i_notes = None\<rparr>] =
     (pondok\<lparr>attendances :=
        [\<lparr>a_id = 1, a_sessionId = 1, a_userId = 10, a_status = ''present'', a_notes = None,
          a_verifiedBy = Some 13, a_verifiedAt = Some 900\<rparr>,
         \<lparr>a_id = 2, a_sessionId = 1, a_userId = 11, a_status = ''late'', a_notes = None,
          a_verifiedBy = Some 13, a_verifiedAt = Some 900\<rparr>,
         \<lparr>a_id = 3, a_sessionId = 1, a_userId = 12, a_status = ''excused'',
          a_notes = Some ''sick'', a_verifiedBy = Some 13, a_verifiedAt = Some 1000\<rparr>]\<rparr>,
      Success 200
        [\<lparr>a_id = 3, a_sessionId = 1, a_userId = 12, a_status = ''excused'',
          a_notes = Some ''sick'', a_verifiedBy = Some 13, a_verifiedAt = Some 1000\<rparr>]) \<and>
   (\<exists>m. bulkUpdateAttendance 13 1000 pondok 1
           [\<lparr>i_id = Some 3, i_status = Some ''sleeping'', i_notes = None\<rparr>] =
         (pondok, Failure 400 m))"
proof -
  let ?s = "\<lparr>s_id = 1, s_date = ''2025-01-10'', s_startTime = ''05:00'',
             s_endTime = ''06:00'', s_sessionTypeId = 1, s_batchId = 1, s_divisionId = 1,
             s_status = ''scheduled''\<rparr>"
  let ?good = "[\<lparr>i_id = Some 3, i_status = Some ''excused'', i_notes = Some ''sick''\<rparr>,
                \<lparr>i_id = Some 77, i_status = Some ''late'', i_notes = None\<rparr>]"
  let ?bad = "[\<lparr>i_id = Some 3, i_status = Some ''sleeping'', i_notes = None\<rparr>]"
  have s1: "Session_findByPk pondok 1 = Some ?s"
    by (simp add: Session_findByPk_def pondok_def)
  have d: "distinct (map a_id (attendances pondok))"
    by (simp add: pondok_def)
  have g: "list_all valid_item ?good"
    by (simp add: valid_item_def validStatuses_def)
  have b: "\<not> list_all valid_item ?bad"
    by (simp add: valid_item_def validStatuses_def)
  have "bulkUpdateAttendance 13 1000 pondok 1 ?good =
          (pondok\<lparr>attendances := map (row_after 13 1000 1 ?good) (attendances pondok)\<rparr>,
           Success 200
             (map (row_after 13 1000 1 ?good) (filter (targeted 1 ?good) (attendances pondok))))"
    using bulkUpdateAttendance_rowwise [of ?good pondok 1 ?s 13 1000, OF _ s1 d] g by simp
  moreover have "map (row_after 13 1000 1 ?good) (attendances pondok) =
        [\<lparr>a_id = 1, a_sessionId = 1, a_userId = 10, a_status = ''present'', a_notes = None,
          a_verifiedBy = Some 13, a_verifiedAt = Some 900\<rparr>,
         \<lparr>a_id = 2, a_sessionId = 1, a_userId = 11, a_status = ''late'', a_notes = None,
          a_verifiedBy = Some 13, a_verifiedAt = Some 900\<rparr>,
         \<lparr>a_id = 3, a_sessionId = 1, a_userId = 12, a_status = ''excused'',
          a_notes = Some ''sick'', a_verifiedBy = Some 13, a_verifiedAt = Some 1000\<rparr>]"
    by (simp add: pondok_def row_after_def items_for_def apply_item_def)
  moreover have "map (row_after 13 1000 1 ?good) (filter (targeted 1 ?good) (attendances pondok)) =
        [\<lparr>a_id = 3, a_sessionId = 1, a_userId = 12, a_status = ''excused'',
          a_notes = Some ''sick'', a_verifiedBy = Some 13, a_verifiedAt = Some 1000\<rparr>]"
    by (simp add: pondok_def row_after_def items_for_def apply_item_def targeted_def)
  moreover have "\<exists>m. bulkUpdateAttendance 13 1000 pondok 1 ?bad = (pondok, Failure 400 m)"
    using bulkUpdateAttendance_rowwise [of ?bad pondok 1 ?s 13 1000, OF _ s1 d] b by simp
  ultimately show ?thesis by simp
qed

section \<open>Bulk create and update with filters\<close>

text \<open>No call of the handler writes: every path ends before the transaction.\<close>

lemma filtered_attendance_never_writes:
  "fst (bulkCreateUpdateFilteredAttendance actor now dbs sid userIds status notes) = dbs \<and>
   is_error (snd (bulkCreateUpdateFilteredAttendance actor now dbs sid userIds status notes))"
  by (simp add: bulkCreateUpdateFilteredAttendance_def bulkCreateUpdateFilteredAttendance_in_def
      attendance_controller_scope_def bound_def Let_def split: option.splits)

lemma Attendance_update_keys:
  "map (\<lambda>a. (a_id a, a_sessionId a, a_userId a))
     (attendances (Attendance_update dbs k st n vb va)) =
   map (\<lambda>a. (a_id a, a_sessionId a, a_userId a)) (attendances dbs)"
proof -
  have "map (\<lambda>a. (a_id a, a_sessionId a, a_userId a))
          (map (\<lambda>a. if a_id a = k
                    then a\<lparr>a_status := st, a_notes := n, a_verifiedBy := vb, a_verifiedAt := va\<rparr>
                    else a) xs) =
        map (\<lambda>a. (a_id a, a_sessionId a, a_userId a)) xs" for xs
    by (induction xs) simp_all
  then show ?thesis by (simp add: Attendance_update_def)
qed


lemma save_all_keys:
  "map (\<lambda>a. (a_id a, a_sessionId a, a_userId a)) (attendances (save_all dbs rs)) =
   map (\<lambda>a. (a_id a, a_sessionId a, a_userId a)) (attendances dbs)"
proof (induction rs arbitrary: dbs)
  case Nil
  show ?case by simp
next
  case (Cons r rs)
  show ?case
    unfolding save_all.simps Cons.IH by (rule Attendance_update_keys)
qed

lemma assign_ids_stamped:
  "map (\<lambda>a. (a_sessionId a, a_userId a, a_status a))
     (assign_ids k (map (stampedRecord sid st notes actor now) ids)) =
   map (\<lambda>uid. (sid, uid, st)) ids"
  by (induction ids arbitrary: k) (simp_all add: stampedRecord_def)


lemma Attendance_update_status:
  assumes "a' \<in> set (attendances (Attendance_update dbs k st n vb va))"
  shows "(a_id a' = k \<and> a_status a' = st) \<or> (a_id a' \<noteq> k \<and> a' \<in> set (attendances dbs))"
proof -
  from assms obtain a where a: "a \<in> set (attendances dbs)"
    "a' = (if a_id a = k
           then a\<lparr>a_status := st, a_notes := n, a_verifiedBy := vb, a_verifiedAt := va\<rparr>
           else a)"
    unfolding Attendance_update_def by force
  show ?thesis
  proof (cases "a_id a = k")
    case True
    with a(2) show ?thesis by simp
  next
    case False
    with a show ?thesis by simp
  qed
qed

lemma save_all_status:
  assumes "\<And>r. r \<in> set rs \<Longrightarrow> a_status r = st"
    and "\<And>a. a \<in> set (attendances dbs) \<Longrightarrow> a_id a \<in> I \<Longrightarrow> a_status a = st"
    and "a' \<in> set (attendances (save_all dbs rs))"
    and "a_id a' \<in> I \<union> a_id ` set rs"
  shows "a_status a' = st"
  using assms
proof (induction rs arbitrary: dbs I)
  case Nil
  then show ?case by simp
next
  case (Cons r rs)
  let ?dbs1 = "Attendance_update dbs (a_id r) (a_status r) (a_notes r)
                 (a_verifiedBy r) (a_verifiedAt r)"
  have r: "a_status r = st" by (rule Cons.prems(1)) simp
  show ?case
  proof (rule Cons.IH [of ?dbs1 "insert (a_id r) I"])
    fix x assume "x \<in> set rs"
    then show "a_status x = st" by (intro Cons.prems(1)) simp
  next
    fix a assume a: "a \<in> set (attendances ?dbs1)" "a_id a \<in> insert (a_id r) I"
    from Attendance_update_status [OF a(1)]
    show "a_status a = st"
    proof
      assume "a_id a = a_id r \<and> a_status a = a_status r"
      with r show ?thesis by simp
    next
      assume h: "a_id a \<noteq> a_id r \<and> a \<in> set (attendances dbs)"
      with a(2) have "a_id a \<in> I" by simp
      with h show ?thesis by (intro Cons.prems(2)) simp_all
    qed
  next
    show "a' \<in> set (attendances (save_all ?dbs1 rs))"
      using Cons.prems(3) by simp
  next
    show "a_id a' \<in> insert (a_id r) I \<union> a_id ` set rs"
      using Cons.prems(4) by simp
  qed
qed


text \<open>
  Were \<open>sequelize\<close> in scope, the handler would do what is asked of it: it answers 200,
  and every listed user has a row of the session with the given status afterwards.
\<close>

lemma filtered_attendance_in_scope:
  assumes "bound scope ''sequelize''" and "userIds \<noteq> []"
    and "Session_findByPk dbs sid = Some s" and "st \<in> set validStatuses"
    and "uid \<in> set userIds"
  shows "\<exists>r dbs'. bulkCreateUpdateFilteredAttendance_in scope actor now dbs sid userIds
                    (Some st) notes = (dbs', Success 200 r) \<and>
           (\<exists>a \<in> set (attendances dbs').
              a_sessionId a = sid \<and> a_userId a = uid \<and> a_status a = st)"
proof -
  define existing where
    "existing = filter (\<lambda>a. a_sessionId a = sid \<and> a_userId a \<in> set userIds) (attendances dbs)"
  define upd where
    "upd = map (\<lambda>r. r\<lparr>a_status := st,
                        a_notes := (case notes of None \<Rightarrow> a_notes r | Some n \<Rightarrow> Some n),
                        a_verifiedBy := Some actor, a_verifiedAt := Some now\<rparr>) existing"
  define new where "new = filter (\<lambda>uid. uid \<notin> set (map a_userId existing)) userIds"
  define create where "create = map (stampedRecord sid st notes actor now) new"
  define dbs1 where "dbs1 = save_all dbs upd"
  define dbs2 where
    "dbs2 = (if length create > 0 then fst (Attendance_bulkCreate dbs1 create) else dbs1)"
  have run: "bulkCreateUpdateFilteredAttendance_in scope actor now dbs sid userIds (Some st) notes =
               (dbs2, Success 200 \<lparr>fr_updated = length upd, fr_created = length create,
                                    fr_total = length upd + length create\<rparr>)"
    using assms(1-4)
    by (simp add: bulkCreateUpdateFilteredAttendance_in_def Attendance_findAll_def Let_def
        dbs2_def dbs1_def create_def new_def upd_def existing_def)
  have rows2: "set (attendances dbs1) \<subseteq> set (attendances dbs2)"
    by (auto simp: dbs2_def Attendance_bulkCreate_def Let_def)
  have "\<exists>a \<in> set (attendances dbs2). a_sessionId a = sid \<and> a_userId a = uid \<and> a_status a = st"
  proof (cases "uid \<in> set (map a_userId existing)")
    case True
    then obtain a where a: "a \<in> set existing" "a_userId a = uid"
      by auto
    then have a2: "a \<in> set (attendances dbs)" "a_sessionId a = sid"
      by (simp_all add: existing_def)
    have "(a_id a, sid, uid) \<in> set (map (\<lambda>a. (a_id a, a_sessionId a, a_userId a)) (attendances dbs))"
      using a a2 by force
    then have "(a_id a, sid, uid) \<in>
                 set (map (\<lambda>a. (a_id a, a_sessionId a, a_userId a)) (attendances dbs1))"
      unfolding dbs1_def by (simp only: save_all_keys)
    then obtain a' where a': "a' \<in> set (attendances dbs1)" "a_id a' = a_id a"
        "a_sessionId a' = sid" "a_userId a' = uid"
      by auto
    have "a_id a \<in> a_id ` set upd"
      using a(1) by (force simp: upd_def image_iff)
    then have "a_id a' \<in> {} \<union> a_id ` set upd"
      using a'(2) by simp
    moreover have "a_status r = st" if "r \<in> set upd" for r
      using that by (auto simp: upd_def)
    ultimately have "a_status a' = st"
      using a'(1) unfolding dbs1_def by (intro save_all_status [of upd st dbs "{}" a']) simp_all
    with a' rows2 show ?thesis by blast
  next
    case False
    with assms(5) have n: "uid \<in> set new" by (simp add: new_def)
    then have ne: "length create > 0" by (auto simp: create_def)
    have "(sid, uid, st) \<in> set (map (\<lambda>uid. (sid, uid, st)) new)"
      using n by force
    then have "(sid, uid, st) \<in> set (map (\<lambda>a. (a_sessionId a, a_userId a, a_status a))
                 (assign_ids (next_id (map a_id (attendances dbs1))) create))"
      unfolding create_def by (simp only: assign_ids_stamped)
    then obtain a where a: "a \<in> set (assign_ids (next_id (map a_id (attendances dbs1))) create)"
        "a_sessionId a = sid" "a_userId a = uid" "a_status a = st"
      by auto
    have "a \<in> set (attendances dbs2)"
      using a(1) ne by (simp add: dbs2_def Attendance_bulkCreate_def Let_def)
    with a show ?thesis by blast
  qed
  with run show ?thesis by blast
qed

text \<open>
  Claim C1. \<open>bulkCreateUpdateFilteredAttendance\<close> with an existing session, a non-empty
  list of users and a valid status should leave every listed user with a row of that
  status, inside one transaction. The attendance controller does not import
  \<open>sequelize\<close>, on which the handler calls \<open>transaction\<close>: in the example state the call
  ends in \<open>next(error)\<close> with a \<open>ReferenceError\<close> before any write; user 10 keeps the row
  it had and user 20 gets none.
\<close>

theorem filtered_attendance_ends_in_ReferenceError:
  "bulkCreateUpdateFilteredAttendance 13 1000 pondok 1 [10, 20] (Some ''late'') None =
     (pondok, NextError (ReferenceError ''sequelize''))"
  by (simp add: bulkCreateUpdateFilteredAttendance_def bulkCreateUpdateFilteredAttendance_in_def
      attendance_controller_scope_def bound_def Session_findByPk_def pondok_def
      validStatuses_def Let_def)

section \<open>Statistics and reports\<close>

subsection \<open>Dates and the session filter\<close>









lemma sessionTypeClause_None: "sessionTypeClause None w = w"
  by (simp add: sessionTypeClause_def)

lemma filter_conj_length:
  "length (filter (\<lambda>a. P a \<and> Q a) xs) = length (filter Q (filter P xs))"
  by (simp add: conj_commute)

subsection \<open>Rounding to a double\<close>











lemma double_zero [simp]: "double 0 = 0"
  by (simp add: double_def)









text \<open>
  An exact tie: 23 rows of 160 give the rate 14.375. The division and the
  multiplication leave the double just below it, and \<open>toFixed(2)\<close> writes 14.37.
  Likewise 11 rows of 20 give the double just above 55, written 55.00000000000001 when
  it is not rounded.
\<close>

lemma rate_at_a_tie:
  "double (double (23 / 160) * 100) = 14375 / 1000 - 1 / 2 ^ 49"
  "toFixed2 (double (double (23 / 160) * 100)) = 1437 / 100"
  "double (double (11 / 20) * 100) = 55 + 1 / 2 ^ 47"
  by code_simp+

subsection \<open>getAttendanceStats\<close>

lemma Attendance_count_rows:
  "Attendance_count dbs (\<lambda>a. a_sessionId a \<in> set (map s_id ss)) = length (rows_of_sessions dbs ss)"
  by (simp add: Attendance_count_def rows_of_sessions_def)

lemma Attendance_count_status:
  "Attendance_count dbs (\<lambda>a. a_sessionId a \<in> set (map s_id ss) \<and> a_status a = st) =
     count_status st (rows_of_sessions dbs ss)"
  unfolding Attendance_count_def rows_of_sessions_def count_status_def
  by (rule filter_conj_length)



lemma getAttendanceStats_some:
  assumes "Session_findAll dbs (batchClause batchId (dateClause startDate endDate empty_where)) = ss"
    and "ss \<noteq> []"
  shows "getAttendanceStats dbs startDate endDate batchId =
     Success 200 \<lparr>totalSessions = length ss,
                  totalAttendanceRecords = length (rows_of_sessions dbs ss),
                  present = count_status ''present'' (rows_of_sessions dbs ss),
                  absent = count_status ''absent'' (rows_of_sessions dbs ss),
                  late = count_status ''late'' (rows_of_sessions dbs ss),
                  excused = count_status ''excused'' (rows_of_sessions dbs ss),
                  attendanceRate =
                    parseFloat_toFixed2 (computed_rate (rows_of_sessions dbs ss))\<rparr>"
  unfolding getAttendanceStats_def assms(1) Let_def
    Attendance_count_rows Attendance_count_status computed_rate_def
  using assms(2) by simp





subsection \<open>getAttendanceReports\<close>

text \<open>
  The report as it is written: nothing but an empty \<open>statistics\<close> object when no session
  is selected, and \<open>next(error)\<close> when one is, the attendance controller not importing
  \<open>Division\<close>.
\<close>

lemma getAttendanceReports_stops_at_Division:
  "getAttendanceReports dbs startDate endDate batchId divisionId sessionTypeId =
     (if Session_findAll dbs
           (sessionTypeClause sessionTypeId
              (batchClause batchId (dateClause startDate endDate empty_where))) = []
      then Success 200 None
      else NextError (ReferenceError ''Division''))"
  by (simp add: getAttendanceReports_def getAttendanceReports_in_def
      attendance_controller_scope_def bound_def Let_def)

lemma report_rows:
  "Attendance_findAll dbs
     (\<lambda>a. a_sessionId a \<in> set (map s_id ss) \<and>
          a_userId a \<in> set (map u_id (User_findAll dbs (\<lambda>u. u_role u = ''santri'' \<and> True)))) =
   santri_rows_of_sessions dbs ss"
  by (simp add: Attendance_findAll_def User_findAll_def santri_rows_of_sessions_def
      rows_of_sessions_def santri_ids_def)

text \<open>
  With \<open>Division\<close> among the imports the report would carry, for the same filter set,
  the rate of the rows of the selected sessions that belong to santri users, as the
  double the computation gives and not rounded to two decimals.
\<close>

lemma getAttendanceReports_in_scope:
  assumes "Session_findAll dbs (batchClause batchId (dateClause startDate endDate empty_where)) = ss"
    and "ss \<noteq> []" and "bound scope ''Division''"
  shows "reports_rate (getAttendanceReports_in scope dbs startDate endDate batchId None None) =
           Some (computed_rate (santri_rows_of_sessions dbs ss))"
  unfolding getAttendanceReports_in_def sessionTypeClause_None
    assms(1) Let_def option.case report_rows
  using assms(2,3) by (simp add: computed_rate_def count_status_def)

text \<open>
  In the example state that rate would be 66.66666666666666, where the statistics carry
  66.67.
\<close>

lemma getAttendanceReports_in_scope_example:
  "reports_rate (getAttendanceReports_in scope_with_Division pondok None None None None None) =
     Some (2345624805922133 / 2 ^ 45)"
  "double (6667 / 100) = 4691484174324859 / 2 ^ 46"
proof -
  have all: "Session_findAll pondok (batchClause None (dateClause None None empty_where)) =
               sessions pondok"
    by (simp add: Session_findAll_def batchClause_def dateClause_def empty_where_def
        session_matches_def)
  have ne: "sessions pondok \<noteq> []"
    by (simp add: pondok_def)
  have bd: "bound scope_with_Division ''Division''"
    by (simp add: scope_with_Division_def bound_def)
  have rows: "rows_of_sessions pondok (sessions pondok) = attendances pondok"
    by (simp add: rows_of_sessions_def pondok_def)
  have santri: "santri_ids pondok = [10, 11, 12, 20]"
    by (simp add: santri_ids_def pondok_def)
  have srows: "santri_rows_of_sessions pondok (sessions pondok) = attendances pondok"
    by (simp add: santri_rows_of_sessions_def rows santri) (simp add: pondok_def)
  have counts: "length (attendances pondok) = 3"
    "count_status ''present'' (attendances pondok) = 1"
    "count_status ''late'' (attendances pondok) = 1"
    by (simp_all add: count_status_def pondok_def)
  have cr: "computed_rate (attendances pondok) = double (double (2 / 3) * 100)"
    by (simp add: computed_rate_def counts)
  have val: "double (double (2 / 3) * 100) = 2345624805922133 / 2 ^ 45"
    by code_simp
  show "reports_rate (getAttendanceReports_in scope_with_Division pondok None None None None None) =
     Some (2345624805922133 / 2 ^ 45)"
    unfolding getAttendanceReports_in_scope [OF all ne bd] srows cr val ..
  show "double (6667 / 100) = 4691484174324859 / 2 ^ 46"
    by code_simp
qed

text \<open>
  Claim C3. For the same filter set the rate of \<open>getAttendanceStats\<close> should be the
  global rate of \<open>getAttendanceReports\<close>. In the example state, without any filter, the
  statistics carry the rate 66.67, and the report carries none: it ends in
  \<open>next(error)\<close> with the \<open>ReferenceError\<close> of the identifier \<open>Division\<close>.
\<close>

theorem getAttendanceReports_ends_in_ReferenceError:
  "getAttendanceStats pondok None None None =
     Success 200 \<lparr>totalSessions = 1, totalAttendanceRecords = 3, present = 1, absent = 1,
                  late = 1, excused = 0, attendanceRate = double (6667 / 100)\<rparr> \<and>
   getAttendanceReports pondok None None None None None =
     NextError (ReferenceError ''Division'') \<and>
   reports_rate (getAttendanceReports pondok None None None None None) = None"
proof -
  have all: "Session_findAll pondok (batchClause None (dateClause None None empty_where)) =
               sessions pondok"
    by (simp add: Session_findAll_def batchClause_def dateClause_def empty_where_def
        session_matches_def)
  have ne: "sessions pondok \<noteq> []" "length (sessions pondok) = 1"
    by (simp_all add: pondok_def)
  have rows: "rows_of_sessions pondok (sessions pondok) = attendances pondok"
    by (simp add: rows_of_sessions_def pondok_def)
  have counts: "length (attendances pondok) = 3"
    "count_status ''present'' (attendances pondok) = 1"
    "count_status ''absent'' (attendances pondok) = 1"
    "count_status ''late'' (attendances pondok) = 1"
    "count_status ''excused'' (attendances pondok) = 0"
    by (simp_all add: count_status_def pondok_def)
  have fixed: "toFixed2 (double (double (2 / 3) * 100)) = 6667 / 100"
    by code_simp
  have cr: "computed_rate (attendances pondok) = double (double (2 / 3) * 100)"
    by (simp add: computed_rate_def counts)
  have rate: "parseFloat_toFixed2 (computed_rate (attendances pondok)) = double (6667 / 100)"
    unfolding parseFloat_toFixed2_def cr fixed ..
  have stats: "getAttendanceStats pondok None None None =
     Success 200 \<lparr>totalSessions = 1, totalAttendanceRecords = 3, present = 1, absent = 1,
                  late = 1, excused = 0, attendanceRate = double (6667 / 100)\<rparr>"
    unfolding getAttendanceStats_some [OF all ne(1)] rows counts rate ne(2) ..
  have report: "getAttendanceReports pondok None None None None None =
                  NextError (ReferenceError ''Division'')"
    unfolding getAttendanceReports_stops_at_Division sessionTypeClause_None all
    using ne(1) by simp
  from stats report show ?thesis by simp
qed

end
